theory Spec2Isabelle
  imports Complex_Main "HOL-Library.Word"
begin

section \<open>Package app: the data model and the field-path resolver (app/data_model.go)\<close>

text \<open>
  \<open>DataType\<close> is the Go enumeration \<open>Bool = iota, Int, Float, String\<close>, with \<open>Int\<close>
  written \<open>Int'\<close>; the zero value of the type is \<open>Bool\<close>.
\<close>

datatype DataType = Bool | Int' | Float | String

fun DataType_String :: "DataType \<Rightarrow> string" where
  "DataType_String Bool = ''Bool''"
| "DataType_String Int' = ''Int''"
| "DataType_String Float = ''Float''"
| "DataType_String String = ''String''"

record Field =
  DataType :: DataType

record LinkToSingle =
  LinkedTableName :: string
  ParentFieldName :: string
  ChildFieldName :: string

record Table =
  Fields :: "string \<rightharpoonup> Field"
  LinksToSingle :: "string \<rightharpoonup> LinkToSingle"

record DataModel =
  Tables :: "string \<rightharpoonup> Table"

text \<open>
  Reading a Go map at a key it does not hold (or reading a nil map) gives the zero value of
  the element type. The three zero values the resolver can meet:
\<close>

definition zero_Field :: Field where
  "zero_Field = \<lparr>DataType = Bool\<rparr>"

definition zero_LinkToSingle :: LinkToSingle where
  "zero_LinkToSingle = \<lparr>LinkedTableName = [], ParentFieldName = [], ChildFieldName = []\<rparr>"

definition zero_Table :: Table where
  "zero_Table = \<lparr>Fields = Map.empty, LinksToSingle = Map.empty\<rparr>"

definition index_map :: "('k \<rightharpoonup> 'v) \<Rightarrow> 'k \<Rightarrow> 'v \<Rightarrow> 'v" where
  "index_map m k zero = (case m k of None \<Rightarrow> zero | Some v \<Rightarrow> v)"

text \<open>
  The only way \<open>FieldAt\<close> can stop without returning a \<open>Field\<close> is the run-time panic of
  \<open>path[0]\<close> on an empty slice; the function has no error result.
\<close>

datatype panic = IndexOutOfRange nat nat

text \<open>
  \<open>FieldAt\<close>: the table is read first; a path of length one reads the field; any other path
  evaluates \<open>path[0]\<close> (which panics on the empty path) and recurses on \<open>path[1:]\<close> from the
  linked table.
\<close>

fun FieldAt :: "DataModel \<Rightarrow> string \<Rightarrow> string list \<Rightarrow> panic + Field" where
  "FieldAt dm rootName path =
     (let currentRoot = index_map (Tables dm) rootName zero_Table in
      if length path = 1 then Inr (index_map (Fields currentRoot) (hd path) zero_Field)
      else (case path of
              [] \<Rightarrow> Inl (IndexOutOfRange 0 0)
            | p0 # rest \<Rightarrow>
                FieldAt dm (LinkedTableName (index_map (LinksToSingle currentRoot) p0 zero_LinkToSingle)) rest))"

section \<open>The type float64 of Go: IEEE 754 binary64\<close>

text \<open>
  A \<open>float64\<close> is its 64 bits (\<open>math.Float64bits\<close>): the sign bit, eleven bits of biased
  exponent and 52 bits of fraction. Every word is a \<open>float64\<close>: exponent 2047 is an infinity
  (fraction zero) or a NaN, exponent 0 is a zero or a subnormal number.
\<close>

type_synonym float64 = "64 word"

definition float64_sign :: "float64 \<Rightarrow> bool" where
  "float64_sign w = (uint w div 2 ^ 63 = 1)"

definition float64_exponent :: "float64 \<Rightarrow> int" where
  "float64_exponent w = (uint w div 2 ^ 52) mod 2 ^ 11"

definition float64_fraction :: "float64 \<Rightarrow> int" where
  "float64_fraction w = uint w mod 2 ^ 52"

definition float64_is_NaN :: "float64 \<Rightarrow> bool" where
  "float64_is_NaN w = (float64_exponent w = 2047 \<and> float64_fraction w \<noteq> 0)"

definition float64_is_Inf :: "float64 \<Rightarrow> bool" where
  "float64_is_Inf w = (float64_exponent w = 2047 \<and> float64_fraction w = 0)"

text \<open>
  A finite \<open>float64\<close> is the number \<open>float64_mantissa w * 2 ^ float64_scale w\<close>, the mantissa
  being signed.
\<close>

definition float64_mantissa :: "float64 \<Rightarrow> int" where
  "float64_mantissa w =
     (let m = (if float64_exponent w = 0 then float64_fraction w else 2 ^ 52 + float64_fraction w)
      in if float64_sign w then - m else m)"

definition float64_scale :: "float64 \<Rightarrow> int" where
  "float64_scale w = (if float64_exponent w = 0 then - 1074 else float64_exponent w - 1075)"

definition float64_value :: "float64 \<Rightarrow> rat" where
  "float64_value w =
     (if float64_scale w \<ge> 0 then of_int (float64_mantissa w) * 2 ^ nat (float64_scale w)
      else of_int (float64_mantissa w) / 2 ^ nat (- float64_scale w))"

definition float64_of_fields :: "bool \<Rightarrow> int \<Rightarrow> int \<Rightarrow> float64" where
  "float64_of_fields sign e f = word_of_int ((if sign then 2 ^ 63 else 0) + e * 2 ^ 52 + f)"

definition float64_Inf :: "bool \<Rightarrow> float64" where
  "float64_Inf sign = float64_of_fields sign 2047 0"

text \<open>
  The NaN that an invalid operation produces. Its sign and payload depend on the processor;
  no operation below tells one NaN from another.
\<close>

definition float64_NaN :: float64 where
  "float64_NaN = float64_of_fields False 2047 (2 ^ 51)"

text \<open>The number of bits of a positive integer (\<open>bits.Len\<close>).\<close>

function bit_length :: "int \<Rightarrow> int" where
  "bit_length a = (if a \<le> 0 then 0 else 1 + bit_length (a div 2))"
  by pat_completeness auto
termination
  by (relation "measure nat") auto

declare bit_length.simps [simp del]

text \<open>\<open>a / 2 ^ s\<close> rounded to the nearest integer, a tie going to the even one.\<close>

definition round_half_even :: "int \<Rightarrow> int \<Rightarrow> int" where
  "round_half_even a s =
     (let q = a div 2 ^ nat s; r = a mod 2 ^ nat s; half = 2 ^ nat (s - 1)
      in if r > half \<or> (r = half \<and> odd q) then q + 1 else q)"

text \<open>
  The \<open>float64\<close> nearest to the number \<open>a * 2 ^ e\<close> (\<open>a\<close> not negative) with the given sign,
  a tie going to the even mantissa: \<open>s\<close> low bits are dropped so that 53 bits remain, or
  so that the scale is the one of the subnormal numbers; a number that rounds to \<open>2 ^ 1024\<close>
  or more is an infinity.
\<close>

definition float64_round :: "bool \<Rightarrow> int \<Rightarrow> int \<Rightarrow> float64" where
  "float64_round sign a e =
     (if a = 0 then float64_of_fields sign 0 0
      else
        let s = max (bit_length a - 53) (- 1074 - e);
            m = (if s > 0 then round_half_even a s else a * 2 ^ nat (- s));
            e1 = e + s;
            m2 = (if m = 2 ^ 53 then 2 ^ 52 else m);
            e2 = (if m = 2 ^ 53 then e1 + 1 else e1)
        in if m2 < 2 ^ 52 then float64_of_fields sign 0 m2
           else if e2 + 1075 \<ge> 2047 then float64_Inf sign
           else float64_of_fields sign (e2 + 1075) (m2 - 2 ^ 52))"

text \<open>
  \<open>x - y\<close> on \<open>float64\<close>: a NaN operand or the difference of two infinities of one sign is
  a NaN; otherwise the exact difference, rounded. An exact zero is positive, unless \<open>x\<close> is
  the negative and \<open>y\<close> the positive zero.
\<close>

definition float64_sub :: "float64 \<Rightarrow> float64 \<Rightarrow> float64" where
  "float64_sub x y =
     (if float64_is_NaN x \<or> float64_is_NaN y then float64_NaN
      else if float64_is_Inf x then
        (if float64_is_Inf y \<and> float64_sign x = float64_sign y then float64_NaN else x)
      else if float64_is_Inf y then float64_Inf (\<not> float64_sign y)
      else
        let e = min (float64_scale x) (float64_scale y);
            m = float64_mantissa x * 2 ^ nat (float64_scale x - e)
              - float64_mantissa y * 2 ^ nat (float64_scale y - e)
        in if m = 0 then
             float64_round (float64_mantissa x = 0 \<and> float64_mantissa y = 0
                            \<and> float64_sign x \<and> \<not> float64_sign y) 0 e
           else float64_round (m < 0) \<bar>m\<bar> e)"

text \<open>\<open>math.Abs\<close> clears the sign bit.\<close>

definition float64_abs :: "float64 \<Rightarrow> float64" where
  "float64_abs w = word_of_int (uint w mod 2 ^ 63)"

text \<open>\<open>x < y\<close> on \<open>float64\<close>: false when an operand is a NaN.\<close>

definition float64_less :: "float64 \<Rightarrow> float64 \<Rightarrow> bool" where
  "float64_less x y =
     (if float64_is_NaN x \<or> float64_is_NaN y then False
      else if float64_is_Inf x then float64_sign x \<and> \<not> (float64_is_Inf y \<and> float64_sign y)
      else if float64_is_Inf y then \<not> float64_sign y
      else
        let e = min (float64_scale x) (float64_scale y)
        in float64_mantissa x * 2 ^ nat (float64_scale x - e)
           < float64_mantissa y * 2 ^ nat (float64_scale y - e))"

text \<open>The conversion \<open>float64(i)\<close> of an integer: the nearest \<open>float64\<close>.\<close>

definition float64_of_int :: "int \<Rightarrow> float64" where
  "float64_of_int i = float64_round (i < 0) \<bar>i\<bar> 0"

text \<open>The integer that a \<open>float64\<close> is, when it is finite and has no fractional part.\<close>

definition float64_integer :: "float64 \<Rightarrow> int option" where
  "float64_integer w =
     (if float64_exponent w = 2047 then None
      else if float64_scale w \<ge> 0 then Some (float64_mantissa w * 2 ^ nat (float64_scale w))
      else if float64_mantissa w mod 2 ^ nat (- float64_scale w) = 0
        then Some (float64_mantissa w div 2 ^ nat (- float64_scale w))
      else None)"

section \<open>Package ast: values, errors and the result tree (models/ast/ast_node_evaluation.go)\<close>

text \<open>
  Modelled from the spec: the error values of package \<open>ast\<close> are declared in files that are
  not part of the available sources. The specification names the kinds (ArgumentMissing,
  ArgumentInvalidType, RuntimeExpression); the evaluators name \<open>ast.ErrArgumentInvalidType\<close>,
  \<open>ast.ErrRuntimeExpression\<close> and \<open>ast.NewNamedArgumentError(name)\<close>. \<open>Wrap\<close> is
  \<open>errors.Wrap(err, message)\<close> and \<open>Join\<close> is \<open>errors.Join(errs...)\<close>.
\<close>

datatype error =
    ErrArgumentMissing
  | ErrArgumentInvalidType
  | ErrRuntimeExpression
  | NamedArgumentError string
  | Wrap error string
  | Join "error list"

text \<open>\<open>errors.Is\<close>: the error is the target, or wraps or joins an error that is.\<close>

fun errors_Is :: "error \<Rightarrow> error \<Rightarrow> bool" where
  "errors_Is (Wrap e msg) target = (Wrap e msg = target \<or> errors_Is e target)"
| "errors_Is (Join es) target = (Join es = target \<or> list_ex (\<lambda>e. errors_Is e target) es)"
| "errors_Is e target = (e = target)"

text \<open>
  A Go value of type \<open>any\<close> as the evaluators meet it: nil, a string, a boolean, an integer,
  a float, a time (its instant), a list, or a \<open>Filter\<close> descriptor.
\<close>

datatype val =
    VNil
  | VString string
  | VBool bool
  | VInt int
  | VFloat float64
  | VTime int
  | VList "val list"
  | VFilter Filter
and Filter =
    Filter (TableName: string) (FieldName: string) (Operator: string) (Value: val)

record Arguments =
  Args :: "val list"
  NamedArgs :: "string \<rightharpoonup> val"

text \<open>
  \<open>NodeEvaluation\<close>. \<open>Errors\<close> is a slice that may be nil (\<open>None\<close>). \<open>NamedChildren\<close> is a Go
  map; it is kept as the list of its entries in the order in which the \<open>range\<close> loop of
  \<open>AllErrors\<close> visits them. Go does not fix that order, and nothing below depends on it.
\<close>

datatype NodeEvaluation =
  NodeEvaluation (ReturnValue: val) (Errors: "error list option")
    (Children: "NodeEvaluation list") (NamedChildren: "(string \<times> NodeEvaluation) list")

text \<open>
  The closure \<open>addEvaluationErrors\<close> appends to the captured result \<open>errs\<close>; the model passes
  \<open>errs\<close> in and returns it. The two \<open>range\<close> loops are folds.
\<close>

fun addEvaluationErrors :: "NodeEvaluation \<Rightarrow> error list \<Rightarrow> error list" where
  "addEvaluationErrors (NodeEvaluation rv es cs ncs) errs =
     (let errs1 = (case es of None \<Rightarrow> errs | Some own \<Rightarrow> errs @ own);
          errs2 = fold addEvaluationErrors cs errs1
      in fold (\<lambda>named. addEvaluationErrors (snd named)) ncs errs2)"

definition AllErrors :: "NodeEvaluation \<Rightarrow> error list" where
  "AllErrors n = addEvaluationErrors n []"

section \<open>Package operators: the type registry and the serializer (TRUE, FALSE, EQBOOL)\<close>

text \<open>
  A JSON document, as \<open>encoding/json\<close> reads and writes it. The byte syntax is not modelled:
  \<open>json.Marshal\<close> produces a document and \<open>json.Unmarshal\<close> consumes one. An object is the
  list of its members in the order of the document; a name may occur more than once.
\<close>

datatype json =
    JNull
  | JBool bool
  | JNumber int
  | JString string
  | JArray "json list"
  | JObject "(string \<times> json) list"

text \<open>
  A \<open>json.RawMessage\<close> or \<open>[]byte\<close> argument: the document it holds, or \<open>None\<close> for bytes
  that are not one JSON document (the empty message of a member that is absent).
\<close>

type_synonym RawMessage = "json option"

text \<open>The boolean operators of the file. Operands are never nil.\<close>

datatype OperatorBool = TrueOp | FalseOp | EqBool (Left: OperatorBool) (Right: OperatorBool)

text \<open>
  What a constructor of the registry returns: the zero value \<open>&True{}\<close>, \<open>&False{}\<close> or
  \<open>&EqBool{}\<close>, or (\<open>NewOther\<close>) an operator that another file of the package registers and
  that does not implement \<open>OperatorBool\<close>. The registry \<open>operatorFromType\<close> is a package-level
  map filled by the \<open>init\<close> functions of every file of the package; the functions below take
  it as their first argument. \<open>init_operatorFromType\<close> holds the three entries that the
  \<open>init\<close> functions of this file store.
\<close>

datatype Operator = NewTrue | NewFalse | NewEqBool | NewOther

definition init_operatorFromType :: "string \<rightharpoonup> Operator" where
  "init_operatorFromType =
     [''TRUE'' \<mapsto> NewTrue, ''FALSE'' \<mapsto> NewFalse, ''EQBOOL'' \<mapsto> NewEqBool]"

text \<open>The type assertion \<open>opFunc().(OperatorBool)\<close>.\<close>

fun is_OperatorBool :: "Operator \<Rightarrow> bool" where
  "is_OperatorBool NewOther = False"
| "is_OperatorBool opv = True"

text \<open>
  The errors of \<open>fmt.Errorf\<close>, one constructor for each format string, with the discriminator
  it prints and the error it wraps (\<open>%w\<close>). \<open>JsonError\<close> is an error of \<open>encoding/json\<close>
  itself.
\<close>

datatype op_error =
    JsonError
  | ErrIntermediateTypeData op_error
  | ErrNotRegistered string
  | ErrNotOperatorBool string
  | ErrCouldNotBeUnmarshalled string op_error
  | ErrIntermediateLeftRight op_error
  | ErrInstantiateLeft op_error
  | ErrInstantiateRight op_error

text \<open>
  How \<open>json.Unmarshal\<close> matches the name of a member with the JSON name of a struct field:
  the two are equal up to the case of ASCII letters. (For a field name with a \<open>k\<close> or an \<open>s\<close>
  \<open>encoding/json\<close> also accepts the Kelvin sign and the long s; none of the names \<open>type\<close>,
  \<open>data\<close>, \<open>left\<close> and \<open>right\<close> has one.)
\<close>

definition ascii_lower :: "char \<Rightarrow> char" where
  "ascii_lower c =
     (case map_of (zip ''ABCDEFGHIJKLMNOPQRSTUVWXYZ'' ''abcdefghijklmnopqrstuvwxyz'') c of
        None \<Rightarrow> c
      | Some l \<Rightarrow> l)"

definition equalFold :: "string \<Rightarrow> string \<Rightarrow> bool" where
  "equalFold s t = (map ascii_lower s = map ascii_lower t)"

text \<open>
  Modelled from the spec: the struct \<open>OperatorType\<close> embedded in every envelope is declared
  in a file that is not part of the available sources; by the specification's wire format
  \<open>{"type": <discriminator>, "data": <payload>}\<close> it is the one field \<open>Type\<close> with the JSON
  name \<open>type\<close>.

  \<open>unmarshal_envelope\<close> is \<open>json.Unmarshal(jsonBytes, &_op)\<close>. JSON null leaves the struct at
  its zero value; any document other than null and an object is an error. The members of
  an object are decoded one after the other into the field they name, so the last member
  of a name is the one that stays: a string \<open>type\<close> is stored in \<open>Type\<close>, a null \<open>type\<close>
  leaves \<open>Type\<close> as it is, any other \<open>type\<close> is an error; a \<open>data\<close> member of any kind, null
  included, is stored as it is in the \<open>json.RawMessage\<close>; a member of another name is
  skipped. (\<open>json.Unmarshal\<close> goes on decoding after a member of the wrong kind and returns
  the error at the end; the struct is not used then, so the model stops at the error.)
\<close>

record envelope =
  Type :: string
  Data :: RawMessage

fun envelope_members :: "(string \<times> json) list \<Rightarrow> envelope \<Rightarrow> op_error + envelope" where
  "envelope_members [] op' = Inr op'"
| "envelope_members ((name, v) # members) op' =
     (if equalFold name ''type'' then
        (case v of
           JString s \<Rightarrow> envelope_members members (op'\<lparr>Type := s\<rparr>)
         | JNull \<Rightarrow> envelope_members members op'
         | _ \<Rightarrow> Inl JsonError)
      else if equalFold name ''data'' then envelope_members members (op'\<lparr>Data := Some v\<rparr>)
      else envelope_members members op')"

fun unmarshal_envelope :: "json \<Rightarrow> op_error + envelope" where
  "unmarshal_envelope JNull = Inr \<lparr>Type = [], Data = None\<rparr>"
| "unmarshal_envelope (JObject members) = envelope_members members \<lparr>Type = [], Data = None\<rparr>"
| "unmarshal_envelope _ = Inl JsonError"

text \<open>
  \<open>unmarshal_eqData\<close> is \<open>json.Unmarshal(b, &eqData)\<close> in \<open>EqBool.UnmarshalJSON\<close>: both fields
  are \<open>json.RawMessage\<close>s, with the JSON names \<open>left\<close> and \<open>right\<close>.
\<close>

record eqData =
  LeftOp :: RawMessage
  RightOp :: RawMessage

fun eqData_members :: "(string \<times> json) list \<Rightarrow> eqData \<Rightarrow> eqData" where
  "eqData_members [] eqd = eqd"
| "eqData_members ((name, v) # members) eqd =
     (if equalFold name ''left'' then eqData_members members (eqd\<lparr>LeftOp := Some v\<rparr>)
      else if equalFold name ''right'' then eqData_members members (eqd\<lparr>RightOp := Some v\<rparr>)
      else eqData_members members eqd)"

fun unmarshal_eqData :: "json \<Rightarrow> op_error + eqData" where
  "unmarshal_eqData JNull = Inr \<lparr>LeftOp = None, RightOp = None\<rparr>"
| "unmarshal_eqData (JObject members) =
     Inr (eqData_members members \<lparr>LeftOp = None, RightOp = None\<rparr>)"
| "unmarshal_eqData _ = Inl JsonError"

definition raw_size :: "RawMessage \<Rightarrow> nat" where
  "raw_size raw = (case raw of None \<Rightarrow> 0 | Some j \<Rightarrow> size j)"

lemma envelope_members_size:
  "envelope_members members op' = Inr env \<Longrightarrow>
   raw_size (Data env) \<le> max (raw_size (Data op')) (size_list (size_prod (\<lambda>x. 0) size) members)"
proof (induction members arbitrary: op')
  case Nil
  then show ?case by simp
next
  case (Cons m members)
  obtain name v where m: "m = (name, v)"
    by (cases m)
  show ?case
  proof (cases "equalFold name ''type''")
    case True
    with Cons.prems m Cons.IH [of "op'\<lparr>Type := the_string\<rparr>" for the_string] Cons.IH [of op']
    show ?thesis
      by (cases v) (fastforce simp: max_def split: if_splits)+
  next
    case False
    with Cons.prems m Cons.IH [of "op'\<lparr>Data := Some v\<rparr>"] Cons.IH [of op']
    show ?thesis
      by (auto simp: raw_size_def max_def split: if_splits)
  qed
qed

lemma unmarshal_envelope_size:
  "unmarshal_envelope j = Inr env \<Longrightarrow> Data env = Some d \<Longrightarrow> size d < size j"
proof (cases j)
  case (JObject members)
  assume "unmarshal_envelope j = Inr env" "Data env = Some d"
  with JObject envelope_members_size [of members "\<lparr>Type = [], Data = None\<rparr>" env]
  show ?thesis
    by (simp add: raw_size_def)
qed auto

lemma eqData_members_size:
  "raw_size (LeftOp (eqData_members members eqd))
     \<le> max (raw_size (LeftOp eqd)) (size_list (size_prod (\<lambda>x. 0) size) members)
   \<and> raw_size (RightOp (eqData_members members eqd))
     \<le> max (raw_size (RightOp eqd)) (size_list (size_prod (\<lambda>x. 0) size) members)"
proof (induction members arbitrary: eqd)
  case Nil
  show ?case by simp
next
  case (Cons m members)
  obtain name v where m: "m = (name, v)"
    by (cases m)
  from m Cons.IH [of "eqd\<lparr>LeftOp := Some v\<rparr>"] Cons.IH [of "eqd\<lparr>RightOp := Some v\<rparr>"]
    Cons.IH [of eqd]
  show ?case
    by (auto simp: raw_size_def max_def split: if_splits)
qed

lemma unmarshal_eqData_size:
  "unmarshal_eqData j = Inr ed \<Longrightarrow>
     (case LeftOp ed of None \<Rightarrow> 0 | Some d \<Rightarrow> size d) \<le> size j
   \<and> (case RightOp ed of None \<Rightarrow> 0 | Some d \<Rightarrow> size d) \<le> size j"
proof (cases j)
  case (JObject members)
  assume "unmarshal_eqData j = Inr ed"
  with JObject eqData_members_size [of members "\<lparr>LeftOp = None, RightOp = None\<rparr>"]
  show ?thesis
    by (auto simp: raw_size_def)
qed auto

text \<open>
  \<open>unmarshalOperatorBool\<close>, and \<open>UnmarshalJSON\<close> for the method that
  \<open>json.Unmarshal(_op.Data, op)\<close> calls on the operator just constructed:
  \<open>True.UnmarshalJSON\<close> and \<open>False.UnmarshalJSON\<close> return nil whatever the payload,
  \<open>EqBool.UnmarshalJSON\<close> decodes its two operand slots. An absent payload is not a JSON
  document, so \<open>json.Unmarshal\<close> fails before it calls the method. The equation for
  \<open>NewOther\<close> is never reached: the type assertion refuses that operator first. A method
  that fails returns its error only: \<open>unmarshalOperatorBool\<close> then returns nil and the error,
  and the receiver, which may hold a decoded left operand, is dropped.
\<close>

function unmarshalOperatorBool :: "(string \<rightharpoonup> Operator) \<Rightarrow> RawMessage \<Rightarrow> op_error + OperatorBool"
  and UnmarshalJSON :: "(string \<rightharpoonup> Operator) \<Rightarrow> Operator \<Rightarrow> json \<Rightarrow> op_error + OperatorBool"
where
  "unmarshalOperatorBool operatorFromType None = Inl (ErrIntermediateTypeData JsonError)"
| "unmarshalOperatorBool operatorFromType (Some jsonBytes) =
     (case unmarshal_envelope jsonBytes of
        Inl err \<Rightarrow> Inl (ErrIntermediateTypeData err)
      | Inr op' \<Rightarrow>
          (case operatorFromType (Type op') of
             None \<Rightarrow> Inl (ErrNotRegistered (Type op'))
           | Some opv \<Rightarrow>
               if \<not> is_OperatorBool opv then Inl (ErrNotOperatorBool (Type op'))
               else (case Data op' of
                       None \<Rightarrow> Inl (ErrCouldNotBeUnmarshalled (Type op') JsonError)
                     | Some d \<Rightarrow>
                         (case UnmarshalJSON operatorFromType opv d of
                            Inl err \<Rightarrow> Inl (ErrCouldNotBeUnmarshalled (Type op') err)
                          | Inr v \<Rightarrow> Inr v))))"
| "UnmarshalJSON operatorFromType NewTrue b = Inr TrueOp"
| "UnmarshalJSON operatorFromType NewFalse b = Inr FalseOp"
| "UnmarshalJSON operatorFromType NewOther b = Inl JsonError"
| "UnmarshalJSON operatorFromType NewEqBool b =
     (case unmarshal_eqData b of
        Inl err \<Rightarrow> Inl (ErrIntermediateLeftRight err)
      | Inr eqd \<Rightarrow>
          (case unmarshalOperatorBool operatorFromType (LeftOp eqd) of
             Inl err \<Rightarrow> Inl (ErrInstantiateLeft err)
           | Inr left \<Rightarrow>
               (case unmarshalOperatorBool operatorFromType (RightOp eqd) of
                  Inl err \<Rightarrow> Inl (ErrInstantiateRight err)
                | Inr right \<Rightarrow> Inr (EqBool left right))))"
  by pat_completeness auto
termination
proof (relation "measure (\<lambda>x. case x of
          Inl (r, raw) \<Rightarrow> 2 * (case raw of None \<Rightarrow> 0 | Some j \<Rightarrow> size j)
        | Inr (r, opv, b) \<Rightarrow> 2 * size b + 1)", goal_cases)
  case 1
  show ?case by simp
next
  case (2 operatorFromType jsonBytes op' opv d)
  then show ?case by (auto dest: unmarshal_envelope_size)
next
  case (3 operatorFromType b eqd)
  then show ?case using unmarshal_eqData_size [of b eqd] by simp
next
  case (4 operatorFromType b eqd left)
  then show ?case using unmarshal_eqData_size [of b eqd] by simp
qed

text \<open>
  \<open>MarshalJSON\<close>: the three methods, with \<open>json.Marshal\<close> calling the method of each operand
  of \<open>EqBool\<close>.
\<close>

fun MarshalJSON :: "OperatorBool \<Rightarrow> json" where
  "MarshalJSON TrueOp = JObject [(''type'', JString ''TRUE''), (''data'', JString [])]"
| "MarshalJSON FalseOp = JObject [(''type'', JString ''FALSE''), (''data'', JString [])]"
| "MarshalJSON (EqBool l r) =
     JObject [(''type'', JString ''EQBOOL''),
              (''data'', JObject [(''left'', MarshalJSON l), (''right'', MarshalJSON r)])]"

section \<open>Package evaluate: the operators Equal and Filter (usecases/ast_eval/evaluate)\<close>

text \<open>
  Modelled from the spec: the helpers \<open>MakeEvaluateResult\<close>, \<open>MakeEvaluateError\<close>,
  \<open>filterNilErrors\<close>, \<open>leftAndRight\<close>, \<open>adaptLeftAndRight\<close> and \<open>AdaptNamedArgument\<close> are
  defined in files that are not part of the available sources. By the specification an
  evaluate function returns a value and a list of errors, a failure is returned as no value
  and the error, and a missing argument is an ArgumentMissing error.

  A Go result pair \<open>(T, error)\<close> is a sum: \<open>Inl\<close> the error, \<open>Inr\<close> the value. \<open>error_of\<close>
  is the error of the pair (nil on success) and \<open>string_of\<close> its value, the empty string on
  failure.
\<close>

definition MakeEvaluateResult :: "val \<Rightarrow> val \<times> error list" where
  "MakeEvaluateResult result = (result, [])"

definition MakeEvaluateError :: "error \<Rightarrow> val \<times> error list" where
  "MakeEvaluateError err = (VNil, [err])"

fun filterNilErrors :: "error option list \<Rightarrow> error list" where
  "filterNilErrors [] = []"
| "filterNilErrors (None # errs) = filterNilErrors errs"
| "filterNilErrors (Some err # errs) = err # filterNilErrors errs"

fun error_of :: "error + 'a \<Rightarrow> error option" where
  "error_of (Inl err) = Some err"
| "error_of (Inr v) = None"

fun string_of :: "error + string \<Rightarrow> string" where
  "string_of (Inl err) = []"
| "string_of (Inr s) = s"

fun leftAndRight :: "val list \<Rightarrow> error + val \<times> val" where
  "leftAndRight [left, right] = Inr (left, right)"
| "leftAndRight args = Inl (Wrap ErrRuntimeExpression ''expected 2 arguments'')"

definition adaptLeftAndRight ::
  "val \<Rightarrow> val \<Rightarrow> (val \<Rightarrow> error + 'a) \<Rightarrow> error list + 'a \<times> 'a" where
  "adaptLeftAndRight left right adapter =
     (case (adapter left, adapter right) of
        (Inr l, Inr r) \<Rightarrow> Inr (l, r)
      | (l, r) \<Rightarrow> Inl (filterNilErrors [error_of l, error_of r]))"

definition AdaptNamedArgument ::
  "(string \<rightharpoonup> val) \<Rightarrow> string \<Rightarrow> (val \<Rightarrow> error + 'a) \<Rightarrow> error + 'a" where
  "AdaptNamedArgument namedArgs name adapter =
     (case namedArgs name of
        None \<Rightarrow> Inl (Join [ErrArgumentMissing, NamedArgumentError name])
      | Some v \<Rightarrow>
          (case adapter v of
             Inl err \<Rightarrow> Inl (Join [err, NamedArgumentError name])
           | Inr result \<Rightarrow> Inr result))"

text \<open>
  Modelled from the spec: \<open>models.DataType\<close> is declared in a file that is not part of the
  available sources; the evaluator and package \<open>app\<close> name its five values. It is the
  declared scalar type of a field.
\<close>

datatype models_DataType =
  models_Bool | models_Int | models_Float | models_String | models_Timestamp

fun models_DataType_String :: "models_DataType \<Rightarrow> string" where
  "models_DataType_String models_Bool = ''Bool''"
| "models_DataType_String models_Int = ''Int''"
| "models_DataType_String models_Float = ''Float''"
| "models_DataType_String models_String = ''String''"
| "models_DataType_String models_Timestamp = ''Timestamp''"

text \<open>
  The adapters and \<open>getFieldType\<close> are defined in files that are not part of the available
  sources. The evaluators take them as parameters \<open>h\<close>, so that what is proved of an
  evaluator holds whatever these helpers compute. \<open>'dm\<close> is the type \<open>models.DataModel\<close>, which
  only \<open>getFieldType\<close> reads.
\<close>

record 'dm helpers =
  adaptArgumentToString :: "val \<Rightarrow> error + string"
  adaptArgumentToBool :: "val \<Rightarrow> error + bool"
  promoteArgumentToInt64 :: "val \<Rightarrow> error + int"
  promoteArgumentToFloat64 :: "val \<Rightarrow> error + float64"
  adaptArgumentToTime :: "val \<Rightarrow> error + int"
  adaptArgumentToListOfStrings :: "val \<Rightarrow> error + val"
  promoteArgumentToDataType :: "val \<Rightarrow> models_DataType \<Rightarrow> error + val"
  getFieldType :: "'dm \<Rightarrow> string \<Rightarrow> string \<Rightarrow> error + models_DataType"

text \<open>
  \<open>Equal.Evaluate\<close>. \<open>len(errs) == 0\<close> is the case \<open>Inr\<close> of \<open>adaptLeftAndRight\<close>.
  \<open>left.Equal(right)\<close> compares the instants of two times. The constant \<open>1e-8\<close>, compared
  with a \<open>float64\<close>, is the \<open>float64\<close> nearest to it, which is \<open>0x3E45798EE2308C3A\<close>
  (\<open>6044629098073146 / 2 ^ 79\<close>).
\<close>

definition floatEqualityThreshold :: float64 where
  "floatEqualityThreshold = 0x3E45798EE2308C3A"

definition Equal_Evaluate :: "'dm helpers \<Rightarrow> Arguments \<Rightarrow> val \<times> error list" where
  "Equal_Evaluate h arguments =
     (case leftAndRight (Args arguments) of
        Inl err \<Rightarrow> MakeEvaluateError err
      | Inr (leftAny, rightAny) \<Rightarrow>
     (case adaptLeftAndRight leftAny rightAny (adaptArgumentToString h) of
        Inr (left, right) \<Rightarrow> MakeEvaluateResult (VBool (left = right))
      | Inl errs \<Rightarrow>
     (case adaptLeftAndRight leftAny rightAny (adaptArgumentToBool h) of
        Inr (left, right) \<Rightarrow> MakeEvaluateResult (VBool (left = right))
      | Inl errs \<Rightarrow>
     (case adaptLeftAndRight leftAny rightAny (promoteArgumentToInt64 h) of
        Inr (left, right) \<Rightarrow> MakeEvaluateResult (VBool (left = right))
      | Inl errs \<Rightarrow>
     (case adaptLeftAndRight leftAny rightAny (promoteArgumentToFloat64 h) of
        Inr (left, right) \<Rightarrow> MakeEvaluateResult
          (VBool (float64_less (float64_abs (float64_sub left right)) floatEqualityThreshold))
      | Inl errs \<Rightarrow>
     (case adaptLeftAndRight leftAny rightAny (adaptArgumentToTime h) of
        Inr (left, right) \<Rightarrow> MakeEvaluateResult (VBool (left = right))
      | Inl errs \<Rightarrow>
          MakeEvaluateError (Wrap ErrArgumentInvalidType
            ''all arguments to Equal Evaluate must be string, boolean, time, int or float'')))))))"

text \<open>
  Modelled from the spec: the constants \<open>ast.FILTER_*\<close> are strings declared in a file that
  is not part of the available sources. Their values are taken from the specification's
  enumeration of the operators; as keys of one Go map literal they are pairwise distinct,
  which is all that the evaluator uses of them.
\<close>

definition FILTER_EQUAL :: string where "FILTER_EQUAL = ''equal''"
definition FILTER_NOT_EQUAL :: string where "FILTER_NOT_EQUAL = ''not-equal''"
definition FILTER_GREATER :: string where "FILTER_GREATER = ''greater''"
definition FILTER_GREATER_OR_EQUAL :: string where "FILTER_GREATER_OR_EQUAL = ''greater-or-equal''"
definition FILTER_LESSER :: string where "FILTER_LESSER = ''lesser''"
definition FILTER_LESSER_OR_EQUAL :: string where "FILTER_LESSER_OR_EQUAL = ''lesser-or-equal''"
definition FILTER_IS_IN_LIST :: string where "FILTER_IS_IN_LIST = ''is-in-list''"
definition FILTER_IS_NOT_IN_LIST :: string where "FILTER_IS_NOT_IN_LIST = ''is-not-in-list''"
definition FILTER_IS_EMPTY :: string where "FILTER_IS_EMPTY = ''is-empty''"
definition FILTER_IS_NOT_EMPTY :: string where "FILTER_IS_NOT_EMPTY = ''is-not-empty''"
definition FILTER_STARTS_WITH :: string where "FILTER_STARTS_WITH = ''starts-with''"
definition FILTER_ENDS_WITH :: string where "FILTER_ENDS_WITH = ''ends-with''"
definition FILTER_FUZZY_MATCH :: string where "FILTER_FUZZY_MATCH = ''fuzzy-match''"

definition validTypeForFilterOperators :: "(string \<times> models_DataType list) list" where
  "validTypeForFilterOperators =
    [(FILTER_EQUAL, [models_Bool, models_Int, models_Float, models_String, models_Timestamp]),
     (FILTER_NOT_EQUAL, [models_Bool, models_Int, models_Float, models_String, models_Timestamp]),
     (FILTER_GREATER, [models_Int, models_Float, models_String, models_Timestamp]),
     (FILTER_GREATER_OR_EQUAL, [models_Int, models_Float, models_String, models_Timestamp]),
     (FILTER_LESSER, [models_Int, models_Float, models_String, models_Timestamp]),
     (FILTER_LESSER_OR_EQUAL, [models_Int, models_Float, models_String, models_Timestamp]),
     (FILTER_IS_IN_LIST, [models_String]),
     (FILTER_IS_NOT_IN_LIST, [models_String]),
     (FILTER_IS_EMPTY, [models_Bool, models_Int, models_Float, models_String, models_Timestamp]),
     (FILTER_IS_NOT_EMPTY, [models_Bool, models_Int, models_Float, models_String, models_Timestamp]),
     (FILTER_STARTS_WITH, [models_String]),
     (FILTER_ENDS_WITH, [models_String]),
     (FILTER_FUZZY_MATCH, [models_String])]"

text \<open>
  \<open>FilterEvaluator.Evaluate\<close>. \<open>slices.Contains\<close> is membership in the list;
  \<open>reflect.TypeOf(value) == reflect.TypeOf(float64(0))\<close> is \<open>is_float64\<close>; reading the absent
  key \<open>value\<close> of the map of named arguments gives nil.
\<close>

record 'dm FilterEvaluator =
  DataModel :: 'dm

fun is_float64 :: "val \<Rightarrow> bool" where
  "is_float64 (VFloat x) = True"
| "is_float64 v = False"

definition FilterEvaluator_Evaluate ::
  "'dm helpers \<Rightarrow> 'dm FilterEvaluator \<Rightarrow> Arguments \<Rightarrow> val \<times> error list" where
  "FilterEvaluator_Evaluate h f arguments =
     (let tableNameRes = AdaptNamedArgument (NamedArgs arguments) ''tableName'' (adaptArgumentToString h);
          fieldNameRes = AdaptNamedArgument (NamedArgs arguments) ''fieldName'' (adaptArgumentToString h);
          operatorRes = AdaptNamedArgument (NamedArgs arguments) ''operator'' (adaptArgumentToString h);
          tableName = string_of tableNameRes;
          fieldName = string_of fieldNameRes;
          operatorStr = string_of operatorRes;
          errs = filterNilErrors [error_of tableNameRes, error_of fieldNameRes, error_of operatorRes]
      in if length errs > 0 then (VNil, errs)
         else
     (case getFieldType h (DataModel f) tableName fieldName of
        Inl err \<Rightarrow>
          MakeEvaluateError (Join
            [Wrap err (''field type for '' @ tableName @ ''.'' @ fieldName
                       @ '' not found in data model in Evaluate filter''),
             NamedArgumentError ''fieldName''])
      | Inr fieldType \<Rightarrow>
     (let operator = operatorStr in
      case map_of validTypeForFilterOperators operator of
        None \<Rightarrow>
          MakeEvaluateError (Join
            [Wrap ErrRuntimeExpression (''operator '' @ operator @ '' is not valid in Evaluate filter''),
             NamedArgumentError ''operator''])
      | Some validTypes \<Rightarrow>
          if fieldType \<notin> set validTypes then
            MakeEvaluateError (Join
              [Wrap ErrArgumentInvalidType
                 (''field type '' @ models_DataType_String fieldType @ '' is not valid for operator ''
                  @ operator @ '' in Evaluate filter''),
               NamedArgumentError ''fieldName''])
          else
     (let value = (case NamedArgs arguments ''value'' of None \<Rightarrow> VNil | Some v \<Rightarrow> v) in
      if value = VNil then
        (VFilter (Filter tableName fieldName operator VNil), [])
      else
     (case (if operator = FILTER_FUZZY_MATCH then Inr value
            else if fieldType = models_Int \<and> is_float64 value then Inr value
            else if operator = FILTER_IS_IN_LIST \<or> operator = FILTER_IS_NOT_IN_LIST
              then adaptArgumentToListOfStrings h value
            else promoteArgumentToDataType h value fieldType) of
        Inl err \<Rightarrow>
          MakeEvaluateError (Join
            [Wrap ErrArgumentInvalidType
               (''value is not compatible with selected field '' @ tableName @ ''.'' @ fieldName
                @ '' in Evaluate filter''),
             NamedArgumentError ''value'',
             err])
      | Inr promotedValue \<Rightarrow>
          (VFilter (Filter tableName fieldName operator promotedValue), []))))))"

section \<open>The helpers as the specification describes them\<close>

text \<open>
  Modelled from the spec: \<open>models.DataModel\<close> is declared in a file that is not part of the
  available sources. By the specification it maps a table name to a table, whose fields
  map a field name to a declared scalar type (the links of a table are left out: the
  Filter operator does not read them).
\<close>

type_synonym models_DataModel = "string \<rightharpoonup> (string \<rightharpoonup> models_DataType)"

text \<open>
  Modelled from the spec: the adapters \<open>adaptArgumentToString\<close>, \<open>adaptArgumentToBool\<close>,
  \<open>promoteArgumentToInt64\<close>, \<open>promoteArgumentToFloat64\<close>, \<open>adaptArgumentToTime\<close>,
  \<open>adaptArgumentToListOfStrings\<close> and \<open>promoteArgumentToDataType\<close> are defined in files that
  are not part of the available sources. By the specification a value coerces into its own
  representation; \<open>Equal("a", true)\<close> has no shared representation; \<open>Equal(3, 3.0)\<close> is
  decided by the integers, so an integral float promotes to an integer; \<open>Equal(1.0, 1.0001)\<close>
  is decided by the floats, so a float that is not integral does not; an integer promotes
  to a float; the default promotion of a filter value is to the declared type of the field.
\<close>

fun spec_adaptArgumentToString :: "val \<Rightarrow> error + string" where
  "spec_adaptArgumentToString (VString s) = Inr s"
| "spec_adaptArgumentToString v = Inl (Wrap ErrArgumentInvalidType ''argument must be a string'')"

fun spec_adaptArgumentToBool :: "val \<Rightarrow> error + bool" where
  "spec_adaptArgumentToBool (VBool b) = Inr b"
| "spec_adaptArgumentToBool v = Inl (Wrap ErrArgumentInvalidType ''argument must be a boolean'')"

fun spec_promoteArgumentToInt64 :: "val \<Rightarrow> error + int" where
  "spec_promoteArgumentToInt64 (VInt i) = Inr i"
| "spec_promoteArgumentToInt64 (VFloat x) =
     (case float64_integer x of
        None \<Rightarrow> Inl (Wrap ErrArgumentInvalidType ''argument must be an integer'')
      | Some i \<Rightarrow>
          if - (2 ^ 63) \<le> i \<and> i < 2 ^ 63 then Inr i
          else Inl (Wrap ErrArgumentInvalidType ''argument must be an integer''))"
| "spec_promoteArgumentToInt64 v = Inl (Wrap ErrArgumentInvalidType ''argument must be an integer'')"

fun spec_promoteArgumentToFloat64 :: "val \<Rightarrow> error + float64" where
  "spec_promoteArgumentToFloat64 (VFloat x) = Inr x"
| "spec_promoteArgumentToFloat64 (VInt i) = Inr (float64_of_int i)"
| "spec_promoteArgumentToFloat64 v = Inl (Wrap ErrArgumentInvalidType ''argument must be a number'')"

fun spec_adaptArgumentToTime :: "val \<Rightarrow> error + int" where
  "spec_adaptArgumentToTime (VTime t) = Inr t"
| "spec_adaptArgumentToTime v = Inl (Wrap ErrArgumentInvalidType ''argument must be a time'')"

fun is_string :: "val \<Rightarrow> bool" where
  "is_string (VString s) = True"
| "is_string v = False"

fun spec_adaptArgumentToListOfStrings :: "val \<Rightarrow> error + val" where
  "spec_adaptArgumentToListOfStrings (VList vs) =
     (if list_all is_string vs then Inr (VList vs)
      else Inl (Wrap ErrArgumentInvalidType ''argument must be a list of strings''))"
| "spec_adaptArgumentToListOfStrings v =
     Inl (Wrap ErrArgumentInvalidType ''argument must be a list of strings'')"

fun spec_promoteArgumentToDataType :: "val \<Rightarrow> models_DataType \<Rightarrow> error + val" where
  "spec_promoteArgumentToDataType v models_Bool = map_sum id VBool (spec_adaptArgumentToBool v)"
| "spec_promoteArgumentToDataType v models_Int = map_sum id VInt (spec_promoteArgumentToInt64 v)"
| "spec_promoteArgumentToDataType v models_Float = map_sum id VFloat (spec_promoteArgumentToFloat64 v)"
| "spec_promoteArgumentToDataType v models_String = map_sum id VString (spec_adaptArgumentToString v)"
| "spec_promoteArgumentToDataType v models_Timestamp = map_sum id VTime (spec_adaptArgumentToTime v)"

text \<open>
  Modelled from the spec: \<open>getFieldType\<close> is defined in a file that is not part of the
  available sources. By the specification the Filter operator rejects unknown table and
  field names against the data model, an unknown field being a RuntimeExpression error.
\<close>

definition spec_getFieldType :: "models_DataModel \<Rightarrow> string \<Rightarrow> string \<Rightarrow> error + models_DataType" where
  "spec_getFieldType dataModel tableName fieldName =
     (case dataModel tableName of
        None \<Rightarrow> Inl (Wrap ErrRuntimeExpression (''unknown table '' @ tableName))
      | Some tableFields \<Rightarrow>
          (case tableFields fieldName of
             None \<Rightarrow> Inl (Wrap ErrRuntimeExpression (''unknown field '' @ fieldName))
           | Some fieldType \<Rightarrow> Inr fieldType))"

definition spec_helpers :: "models_DataModel helpers" where
  "spec_helpers =
     \<lparr>adaptArgumentToString = spec_adaptArgumentToString,
      adaptArgumentToBool = spec_adaptArgumentToBool,
      promoteArgumentToInt64 = spec_promoteArgumentToInt64,
      promoteArgumentToFloat64 = spec_promoteArgumentToFloat64,
      adaptArgumentToTime = spec_adaptArgumentToTime,
      adaptArgumentToListOfStrings = spec_adaptArgumentToListOfStrings,
      promoteArgumentToDataType = spec_promoteArgumentToDataType,
      getFieldType = spec_getFieldType\<rparr>"

section \<open>The words of the specification\<close>

text \<open>
  Both operands coerce into a representation: the adapter succeeds on the left and on the
  right operand; the result is the two adapted values.
\<close>

definition both_coerce :: "(val \<Rightarrow> error + 'a) \<Rightarrow> val \<Rightarrow> val \<Rightarrow> ('a \<times> 'a) option" where
  "both_coerce adapter left right =
     (case adapter left of
        Inl err \<Rightarrow> None
      | Inr l \<Rightarrow> (case adapter right of Inl err \<Rightarrow> None | Inr r \<Rightarrow> Some (l, r)))"

text \<open>
  The specification's example table \<open>orders\<close>, with a string field \<open>status\<close> and a float
  field \<open>amount\<close>; and the same table with \<open>status\<close> declared boolean.
\<close>

definition orders_fields :: models_DataModel where
  "orders_fields =
     [''orders'' \<mapsto> [''status'' \<mapsto> models_String, ''amount'' \<mapsto> models_Float]]"

definition orders_fields_bool :: models_DataModel where
  "orders_fields_bool = [''orders'' \<mapsto> [''status'' \<mapsto> models_Bool]]"

text \<open>
  The error at the end of a chain of wrapped errors: the error whose message the whole
  chain ends with.
\<close>

fun cause :: "op_error \<Rightarrow> op_error" where
  "cause (ErrIntermediateTypeData e) = cause e"
| "cause (ErrCouldNotBeUnmarshalled t e) = cause e"
| "cause (ErrIntermediateLeftRight e) = cause e"
| "cause (ErrInstantiateLeft e) = cause e"
| "cause (ErrInstantiateRight e) = cause e"
| "cause e = e"

text \<open>
  A serialized operator tree, and the discriminators of its nodes in pre-order. A node is a
  JSON object, read as \<open>json.Unmarshal\<close> reads an envelope; its discriminator is the \<open>Type\<close>
  read. A node whose discriminator is not registered is a leaf, whatever its payload, and
  also when it has none. A node registered for \<open>True\<close> or \<open>False\<close> is a leaf with a payload,
  which is not looked into. The payload of a node registered for \<open>EqBool\<close> is an object with
  a \<open>left\<close> and a \<open>right\<close> member, read as \<open>EqBool.UnmarshalJSON\<close> reads them, that are
  serialized operator trees. A document with a node registered for an operator that is not
  boolean is not the serialization of a boolean operator tree. The result is \<open>None\<close> for a
  document that is not such a tree.
\<close>

function serialized_nodes :: "(string \<rightharpoonup> Operator) \<Rightarrow> json \<Rightarrow> string list option" where
  "serialized_nodes reg j =
     (case j of
        JObject members \<Rightarrow>
          (case unmarshal_envelope j of
             Inl err \<Rightarrow> None
           | Inr node \<Rightarrow>
               (case reg (Type node) of
                  None \<Rightarrow> Some [Type node]
                | Some NewOther \<Rightarrow> None
                | Some NewTrue \<Rightarrow> (case Data node of None \<Rightarrow> None | Some d \<Rightarrow> Some [Type node])
                | Some NewFalse \<Rightarrow> (case Data node of None \<Rightarrow> None | Some d \<Rightarrow> Some [Type node])
                | Some NewEqBool \<Rightarrow>
                    (case Data node of
                       Some (JObject operands) \<Rightarrow>
                         (case unmarshal_eqData (JObject operands) of
                            Inl err \<Rightarrow> None
                          | Inr eqd \<Rightarrow>
                              (case LeftOp eqd of
                                 None \<Rightarrow> None
                               | Some l \<Rightarrow>
                                   (case RightOp eqd of
                                      None \<Rightarrow> None
                                    | Some r \<Rightarrow>
                                        (case serialized_nodes reg l of
                                           None \<Rightarrow> None
                                         | Some ls \<Rightarrow>
                                             (case serialized_nodes reg r of
                                                None \<Rightarrow> None
                                              | Some rs \<Rightarrow> Some (Type node # ls @ rs))))))
                     | _ \<Rightarrow> None)))
      | _ \<Rightarrow> None)"
  by pat_completeness auto
termination
proof (relation "measure (\<lambda>(reg, j). size j)", goal_cases)
  case 1
  show ?case by simp
next
  case (2 reg j members node opv d operands eqd l r)
  then show ?case
    using unmarshal_envelope_size [of j node "JObject operands"]
      unmarshal_eqData_size [of "JObject operands" eqd]
    by simp
next
  case (3 reg j members node opv d operands eqd l r ls)
  then show ?case
    using unmarshal_envelope_size [of j node "JObject operands"]
      unmarshal_eqData_size [of "JObject operands" eqd]
    by simp
qed

text \<open>
  A registry with an operator that is not boolean (as the float operators of the package
  are), for the examples.
\<close>

definition float_operatorFromType :: "string \<rightharpoonup> Operator" where
  "float_operatorFromType = init_operatorFromType(''FLOAT'' \<mapsto> NewOther)"

text \<open>
  The tree \<open>EQBOOL(TRUE, BOGUS)\<close>: the unregistered node is in the right operand slot, and
  has no payload.
\<close>

definition eq_true_bogus :: json where
  "eq_true_bogus =
     JObject [(''type'', JString ''EQBOOL''),
              (''data'', JObject [(''left'', MarshalJSON TrueOp),
                                  (''right'', JObject [(''type'', JString ''BOGUS'')])])]"

text \<open>
  A document with a name that occurs twice and names in capitals: the first \<open>left\<close> member
  names an unregistered operator, the second one is the member that is decoded.
\<close>

definition eq_left_twice :: json where
  "eq_left_twice =
     JObject [(''Type'', JString ''EQBOOL''),
              (''DATA'', JObject [(''left'', JObject [(''type'', JString ''BOGUS''),
                                                      (''data'', JString [])]),
                                  (''left'', MarshalJSON TrueOp),
                                  (''Right'', MarshalJSON FalseOp)])]"

text \<open>
  A hop of a path is unrecognized when the current table is not in the data model, or when
  the link name is not a link of the current table. (The words of the specification; the
  last element of a path is a field name, not a hop.)
\<close>

fun unrecognized_hop :: "DataModel \<Rightarrow> string \<Rightarrow> string list \<Rightarrow> bool" where
  "unrecognized_hop dm rootName [] = False"
| "unrecognized_hop dm rootName [fieldName] = (Tables dm rootName = None)"
| "unrecognized_hop dm rootName (p0 # rest) =
     (case Tables dm rootName of
        None \<Rightarrow> True
      | Some t \<Rightarrow>
          (case LinksToSingle t p0 of
             None \<Rightarrow> True
           | Some l \<Rightarrow> unrecognized_hop dm (LinkedTableName l) rest))"

text \<open>The data model of the specification's example: \<open>orders\<close> links to \<open>customers\<close>.\<close>

definition customers_table :: Table where
  "customers_table = \<lparr>Fields = [''name'' \<mapsto> \<lparr>DataType = String\<rparr>], LinksToSingle = Map.empty\<rparr>"

definition orders_table :: Table where
  "orders_table =
     \<lparr>Fields = [''status'' \<mapsto> \<lparr>DataType = String\<rparr>, ''amount'' \<mapsto> \<lparr>DataType = Float\<rparr>],
      LinksToSingle = [''customer'' \<mapsto>
        \<lparr>LinkedTableName = ''customers'', ParentFieldName = ''object_id'',
         ChildFieldName = ''customer_id''\<rparr>]\<rparr>"

definition orders_model :: DataModel where
  "orders_model = \<lparr>Tables = [''orders'' \<mapsto> orders_table, ''customers'' \<mapsto> customers_table]\<rparr>"

section \<open>Properties of the field-path resolver\<close>

lemmas FieldAt_unfold = FieldAt.simps

declare FieldAt.simps [simp del]

lemma FieldAt_Nil: "FieldAt dm rootName [] = Inl (IndexOutOfRange 0 0)"
  by (simp add: FieldAt_unfold)

lemma FieldAt_single:
  "FieldAt dm rootName [fieldName] =
     Inr (index_map (Fields (index_map (Tables dm) rootName zero_Table)) fieldName zero_Field)"
  by (simp add: FieldAt_unfold)

lemma FieldAt_hop:
  "rest \<noteq> [] \<Longrightarrow>
   FieldAt dm rootName (p0 # rest) =
     FieldAt dm (LinkedTableName (index_map (LinksToSingle (index_map (Tables dm) rootName zero_Table))
        p0 zero_LinkToSingle)) rest"
  by (subst FieldAt_unfold) (simp add: Let_def)

lemma FieldAt_returns: "path \<noteq> [] \<Longrightarrow> \<exists>f. FieldAt dm rootName path = Inr f"
proof (induction path arbitrary: rootName)
  case Nil
  then show ?case by simp
next
  case (Cons p0 rest)
  show ?case
  proof (cases "rest = []")
    case True
    then show ?thesis by (simp add: FieldAt_single)
  next
    case False
    then show ?thesis using Cons.IH by (simp add: FieldAt_hop)
  qed
qed

lemma FieldAt_from_unknown_table:
  "path \<noteq> [] \<Longrightarrow> Tables dm [] = None \<Longrightarrow> Tables dm rootName = None \<Longrightarrow>
   FieldAt dm rootName path = Inr zero_Field"
proof (induction path arbitrary: rootName)
  case Nil
  then show ?case by simp
next
  case (Cons p0 rest)
  show ?case
  proof (cases "rest = []")
    case True
    with Cons.prems show ?thesis
      by (simp add: FieldAt_single index_map_def zero_Table_def)
  next
    case False
    with Cons.prems Cons.IH [of "[]"] show ?thesis
      by (simp add: FieldAt_hop index_map_def zero_Table_def zero_LinkToSingle_def)
  qed
qed

lemma FieldAt_unrecognized:
  "unrecognized_hop dm rootName path \<Longrightarrow> Tables dm [] = None \<Longrightarrow>
   FieldAt dm rootName path = Inr zero_Field"
proof (induction dm rootName path rule: unrecognized_hop.induct)
  case (1 dm rootName)
  then show ?case by simp
next
  case (2 dm rootName fieldName)
  then show ?case by (simp add: FieldAt_from_unknown_table)
next
  case (3 dm rootName p0 v va)
  show ?case
  proof (cases "Tables dm rootName")
    case None
    with "3.prems" show ?thesis by (simp add: FieldAt_from_unknown_table)
  next
    case (Some t)
    show ?thesis
    proof (cases "LinksToSingle t p0")
      case None
      with Some "3.prems" show ?thesis
        by (simp add: FieldAt_hop index_map_def zero_LinkToSingle_def FieldAt_from_unknown_table)
    next
      case (Some l)
      with \<open>Tables dm rootName = Some t\<close> "3.prems" "3.IH" [of t l] show ?thesis
        by (simp add: FieldAt_hop index_map_def)
    qed
  qed
qed

text \<open>
  C8. For every data model and root table name, calling \<open>FieldAt\<close> with an empty path
  panics with an out-of-range index into the path: it returns neither a field value nor
  an error.
\<close>

theorem C8_FieldAt_empty_path_panics:
  "FieldAt dm rootName [] = Inl (IndexOutOfRange 0 0)"
  by (rule FieldAt_Nil)

text \<open>
  C3, as the specification states it, fails: at the specification's own example the link
  \<open>missing_link\<close> is not a link of \<open>orders\<close>, and \<open>FieldAt\<close> returns the zero-value field
  (declared type \<open>Bool\<close>) instead of an error.
\<close>

theorem C3_FieldAt_missing_link_counterexample:
  "LinksToSingle orders_table ''missing_link'' = None
   \<and> FieldAt orders_model ''orders'' [''missing_link'', ''name''] = Inr \<lparr>DataType = Bool\<rparr>"
  by (simp add: FieldAt_hop FieldAt_single orders_model_def orders_table_def customers_table_def
      index_map_def zero_LinkToSingle_def zero_Table_def zero_Field_def)

text \<open>
  C3, amended. For every data model, root table name and non-empty path, \<open>FieldAt\<close>
  returns a \<open>Field\<close> and never panics; it has no error result. An unrecognized table or link
  is read as its zero value, so the walk goes on from the table named by the empty string:
  when the data model has no table of that name, the result for a path with an
  unrecognized table or link is the zero-value field, whose declared type is \<open>Bool\<close>.
\<close>

theorem C3_FieldAt_unrecognized_returns_zero_Field:
  assumes "path \<noteq> []"
  shows "(\<exists>f. FieldAt dm rootName path = Inr f)
       \<and> (unrecognized_hop dm rootName path \<and> Tables dm [] = None
            \<longrightarrow> FieldAt dm rootName path = Inr \<lparr>DataType = Bool\<rparr>)"
  using assms FieldAt_returns [of path dm rootName] FieldAt_unrecognized [of dm rootName path]
  by (simp add: zero_Field_def)

theorem C3_FieldAt_unrecognized_witness:
  "[''missing_link'', ''name''] \<noteq> []
   \<and> unrecognized_hop orders_model ''orders'' [''missing_link'', ''name'']
   \<and> Tables orders_model [] = None
   \<and> FieldAt orders_model ''orders'' [''missing_link'', ''name''] = Inr \<lparr>DataType = Bool\<rparr>"
proof -
  have h: "[''missing_link'', ''name''] \<noteq> ([] :: string list)" by simp
  have u: "unrecognized_hop orders_model ''orders'' [''missing_link'', ''name'']"
    by (simp add: orders_model_def orders_table_def)
  have e: "Tables orders_model [] = None"
    by (simp add: orders_model_def)
  from C3_FieldAt_unrecognized_returns_zero_Field [OF h, of orders_model "''orders''"] u e
  show ?thesis by simp
qed

section \<open>Properties of the error collector\<close>

lemma fold_appends:
  "(\<And>x acc. x \<in> set xs \<Longrightarrow> f x acc = acc @ g x) \<Longrightarrow> fold f xs acc = acc @ concat (map g xs)"
  by (induction xs arbitrary: acc) simp_all

lemma addEvaluationErrors_acc:
  "addEvaluationErrors n errs = errs @ addEvaluationErrors n []"
proof (induction n arbitrary: errs)
  case (NodeEvaluation rv es cs ncs)
  have c: "\<And>x acc. x \<in> set cs \<Longrightarrow> addEvaluationErrors x acc = acc @ addEvaluationErrors x []"
    using NodeEvaluation.IH(1) by blast
  have n: "\<And>x acc. x \<in> set ncs \<Longrightarrow>
      addEvaluationErrors (snd x) acc = acc @ addEvaluationErrors (snd x) []"
  proof -
    fix x :: "string \<times> NodeEvaluation" and acc
    assume x: "x \<in> set ncs"
    have "snd x \<in> Basic_BNFs.snds x"
      by (cases x) simp
    with x show "addEvaluationErrors (snd x) acc = acc @ addEvaluationErrors (snd x) []"
      by (rule NodeEvaluation.IH(2))
  qed
  show ?case
    by (simp add: Let_def fold_appends [of cs addEvaluationErrors, OF c]
        fold_appends [of ncs "\<lambda>named. addEvaluationErrors (snd named)", OF n]
        split: option.splits)
qed

text \<open>
  C6. For every \<open>NodeEvaluation\<close> tree, \<open>AllErrors\<close> is the pre-order flattening of the
  node-local error lists: the errors of the node itself (none when the slice is nil), then
  the errors collected from each positional child, from left to right, then the errors
  collected from the named children.
\<close>

theorem C6_AllErrors_preorder:
  "AllErrors n =
     (case Errors n of None \<Rightarrow> [] | Some own \<Rightarrow> own)
     @ concat (map AllErrors (Children n))
     @ concat (map (\<lambda>named. AllErrors (snd named)) (NamedChildren n))"
proof (cases n)
  case (NodeEvaluation rv es cs ncs)
  have c: "\<And>x acc. x \<in> set cs \<Longrightarrow> addEvaluationErrors x acc = acc @ AllErrors x"
    unfolding AllErrors_def by (rule addEvaluationErrors_acc)
  have n: "\<And>x acc. x \<in> set ncs \<Longrightarrow> addEvaluationErrors (snd x) acc = acc @ AllErrors (snd x)"
    unfolding AllErrors_def by (rule addEvaluationErrors_acc)
  show ?thesis
    unfolding NodeEvaluation
    by (simp add: AllErrors_def [of "NodeEvaluation rv es cs ncs"] Let_def
        fold_appends [where xs = cs and f = addEvaluationErrors and g = AllErrors, OF c]
        fold_appends [where xs = ncs and f = "\<lambda>named. addEvaluationErrors (snd named)"
          and g = "\<lambda>named. AllErrors (snd named)", OF n]
        split: option.splits)
qed

section \<open>Properties of the serializer\<close>

declare serialized_nodes.simps [simp del]

lemma find_append:
  "find P (xs @ ys) = (case find P xs of None \<Rightarrow> find P ys | Some x \<Rightarrow> Some x)"
  by (induction xs) simp_all

lemma equalFold_names [simp]:
  "equalFold ''type'' ''type''" "\<not> equalFold ''data'' ''type''" "equalFold ''data'' ''data''"
  "equalFold ''left'' ''left''" "\<not> equalFold ''right'' ''left''" "equalFold ''right'' ''right''"
  by code_simp+

lemma serialized_nodes_cases:
  assumes "serialized_nodes reg j = Some ts"
  obtains (unregistered) node where "unmarshal_envelope j = Inr node" "reg (Type node) = None"
      "ts = [Type node]"
  | (leaf) node opv d where "unmarshal_envelope j = Inr node" "reg (Type node) = Some opv"
      "opv = NewTrue \<or> opv = NewFalse" "Data node = Some d" "ts = [Type node]"
  | (eq) node d eqd l r ls rs where "unmarshal_envelope j = Inr node"
      "reg (Type node) = Some NewEqBool" "Data node = Some d" "unmarshal_eqData d = Inr eqd"
      "LeftOp eqd = Some l" "RightOp eqd = Some r"
      "serialized_nodes reg l = Some ls" "serialized_nodes reg r = Some rs"
      "ts = Type node # ls @ rs"
  using assms
  by (subst (asm) serialized_nodes.simps)
    (auto split: json.splits option.splits Operator.splits sum.splits)

lemma operand_sizes:
  assumes "unmarshal_envelope j = Inr node" "Data node = Some d" "unmarshal_eqData d = Inr eqd"
    "LeftOp eqd = Some l" "RightOp eqd = Some r"
  shows "size l < size j" "size r < size j"
  using assms unmarshal_envelope_size [of j node d] unmarshal_eqData_size [of d eqd]
  by simp_all

lemma decode_eq:
  assumes "unmarshal_envelope j = Inr node" "reg (Type node) = Some NewEqBool"
    "Data node = Some d" "unmarshal_eqData d = Inr eqd" "LeftOp eqd = Some l" "RightOp eqd = Some r"
  shows "unmarshalOperatorBool reg (Some j) =
     (case unmarshalOperatorBool reg (Some l) of
        Inl err \<Rightarrow> Inl (ErrCouldNotBeUnmarshalled (Type node) (ErrInstantiateLeft err))
      | Inr left \<Rightarrow>
          (case unmarshalOperatorBool reg (Some r) of
             Inl err \<Rightarrow> Inl (ErrCouldNotBeUnmarshalled (Type node) (ErrInstantiateRight err))
           | Inr right \<Rightarrow> Inr (EqBool left right)))"
  using assms by (auto split: sum.splits)

text \<open>A serialized tree whose nodes are all registered decodes.\<close>

lemma decode_registered:
  "serialized_nodes reg j = Some ts \<Longrightarrow> find (\<lambda>t. reg t = None) ts = None \<Longrightarrow>
   \<exists>node. unmarshalOperatorBool reg (Some j) = Inr node"
proof (induction j arbitrary: ts rule: measure_induct_rule [where f = size])
  case (less j)
  from less.prems(1) show ?case
  proof (cases rule: serialized_nodes_cases)
    case (unregistered node)
    with less.prems(2) show ?thesis
      by simp
  next
    case (leaf node opv d)
    then show ?thesis
      by auto
  next
    case (eq node d eqd l r ls rs)
    note sizes = operand_sizes [OF eq(1,3,4,5,6)]
    from less.prems(2) eq(9) have fl: "find (\<lambda>t. reg t = None) ls = None"
      and fr: "find (\<lambda>t. reg t = None) rs = None"
      by (auto simp: find_None_iff split: if_splits)
    from less.IH [OF sizes(1) eq(7) fl] less.IH [OF sizes(2) eq(8) fr]
    obtain left right where "unmarshalOperatorBool reg (Some l) = Inr left"
      "unmarshalOperatorBool reg (Some r) = Inr right"
      by blast
    then show ?thesis
      by (simp only: decode_eq [where reg = reg, OF eq(1,2,3,4,5,6)] sum.case) blast
  qed
qed

text \<open>
  A serialized tree with an unregistered node does not decode, and the error chain ends
  with the registration error of the first unregistered node in pre-order.
\<close>

lemma decode_unregistered:
  "serialized_nodes reg j = Some ts \<Longrightarrow> find (\<lambda>t. reg t = None) ts = Some d \<Longrightarrow>
   \<exists>e. unmarshalOperatorBool reg (Some j) = Inl e \<and> cause e = ErrNotRegistered d"
proof (induction j arbitrary: ts rule: measure_induct_rule [where f = size])
  case (less j)
  from less.prems(1) show ?case
  proof (cases rule: serialized_nodes_cases)
    case (unregistered node)
    with less.prems(2) show ?thesis
      by simp
  next
    case (leaf node opv d')
    with less.prems(2) show ?thesis
      by simp
  next
    case (eq node d' eqd l r ls rs)
    note sizes = operand_sizes [OF eq(1,3,4,5,6)]
    from less.prems(2) eq(2,9) have f: "find (\<lambda>t. reg t = None) (ls @ rs) = Some d"
      by simp
    show ?thesis
    proof (cases "find (\<lambda>t. reg t = None) ls")
      case None
      with f have fr: "find (\<lambda>t. reg t = None) rs = Some d"
        by (simp add: find_append)
      from decode_registered [OF eq(7) None] less.IH [OF sizes(2) eq(8) fr]
      obtain left e where "unmarshalOperatorBool reg (Some l) = Inr left"
        "unmarshalOperatorBool reg (Some r) = Inl e" "cause e = ErrNotRegistered d"
        by blast
      then show ?thesis
        by (simp only: decode_eq [where reg = reg, OF eq(1,2,3,4,5,6)] sum.case) simp
    next
      case (Some d'')
      with f have fl: "find (\<lambda>t. reg t = None) ls = Some d"
        by (simp add: find_append)
      from less.IH [OF sizes(1) eq(7) fl]
      obtain e where "unmarshalOperatorBool reg (Some l) = Inl e" "cause e = ErrNotRegistered d"
        by blast
      then show ?thesis
        by (simp only: decode_eq [where reg = reg, OF eq(1,2,3,4,5,6)] sum.case) simp
    qed
  qed
qed

text \<open>
  Of two members of one name the last is decoded, and names are matched without regard to
  case: the unregistered operator of the first \<open>left\<close> member is never read.
\<close>

lemma decode_last_member_of_a_name:
  "unmarshalOperatorBool init_operatorFromType (Some eq_left_twice) = Inr (EqBool TrueOp FalseOp)
   \<and> serialized_nodes init_operatorFromType eq_left_twice = Some [''EQBOOL'', ''TRUE'', ''FALSE'']"
  by code_simp

lemma find_unregistered:
  "t \<in> set ts \<Longrightarrow> reg t = None \<Longrightarrow>
   \<exists>d. find (\<lambda>t. reg t = None) ts = Some d \<and> d \<in> set ts \<and> reg d = None"
  by (induction ts) auto

text \<open>
  C2. Decoding a serialized operator tree that has a node whose discriminator is not in the
  registry fails as a whole: the result is an error and no tree, whichever operand slot the
  node is nested in, and the chain of wrapped errors ends with the registration error that
  names a missing discriminator of the tree (the first one in pre-order).
\<close>

theorem C2_unregistered_node_fails_decode:
  assumes "serialized_nodes operatorFromType j = Some ts"
    and "t \<in> set ts"
    and "operatorFromType t = None"
  shows "\<exists>e d. unmarshalOperatorBool operatorFromType (Some j) = Inl e
           \<and> cause e = ErrNotRegistered d
           \<and> d \<in> set ts \<and> operatorFromType d = None
           \<and> find (\<lambda>t. operatorFromType t = None) ts = Some d"
proof -
  from find_unregistered [of t ts operatorFromType] assms(2,3) obtain d
    where d: "find (\<lambda>t. operatorFromType t = None) ts = Some d" "d \<in> set ts"
      "operatorFromType d = None"
    by blast
  from decode_unregistered [OF assms(1) d(1)] d show ?thesis
    by blast
qed

theorem C2_unregistered_node_witness:
  "serialized_nodes init_operatorFromType eq_true_bogus = Some [''EQBOOL'', ''TRUE'', ''BOGUS'']
   \<and> init_operatorFromType ''BOGUS'' = None
   \<and> unmarshalOperatorBool init_operatorFromType (Some eq_true_bogus) =
       Inl (ErrCouldNotBeUnmarshalled ''EQBOOL'' (ErrInstantiateRight (ErrNotRegistered ''BOGUS'')))
   \<and> (\<exists>e d. unmarshalOperatorBool init_operatorFromType (Some eq_true_bogus) = Inl e
           \<and> cause e = ErrNotRegistered d
           \<and> d \<in> set [''EQBOOL'', ''TRUE'', ''BOGUS''] \<and> init_operatorFromType d = None
           \<and> find (\<lambda>t. init_operatorFromType t = None) [''EQBOOL'', ''TRUE'', ''BOGUS''] = Some d)"
proof -
  have s: "serialized_nodes init_operatorFromType eq_true_bogus = Some [''EQBOOL'', ''TRUE'', ''BOGUS'']"
    by (simp add: eq_true_bogus_def serialized_nodes.simps init_operatorFromType_def)
  have m: "''BOGUS'' \<in> set [''EQBOOL'', ''TRUE'', ''BOGUS'']"
    by simp
  have u: "init_operatorFromType ''BOGUS'' = None"
    by (simp add: init_operatorFromType_def)
  have r: "unmarshalOperatorBool init_operatorFromType (Some eq_true_bogus) =
       Inl (ErrCouldNotBeUnmarshalled ''EQBOOL'' (ErrInstantiateRight (ErrNotRegistered ''BOGUS'')))"
    by (simp add: eq_true_bogus_def init_operatorFromType_def)
  from C2_unregistered_node_fails_decode [OF s m u] s u r show ?thesis
    by blast
qed

text \<open>
  C5. For the operator variants \<open>TRUE\<close>, \<open>FALSE\<close> and \<open>EQBOOL\<close>, and every registry that
  holds the entries their \<open>init\<close> functions store, decoding the encoding of a node gives
  the node back: the same variant, the same operand trees.
\<close>

theorem C5_decode_encode_roundtrip:
  assumes "init_operatorFromType \<subseteq>\<^sub>m operatorFromType"
  shows "unmarshalOperatorBool operatorFromType (Some (MarshalJSON node)) = Inr node"
proof -
  have "operatorFromType ''TRUE'' = Some NewTrue" "operatorFromType ''FALSE'' = Some NewFalse"
    "operatorFromType ''EQBOOL'' = Some NewEqBool"
    using assms
      map_le_def [of init_operatorFromType operatorFromType]
    by (auto simp: init_operatorFromType_def dom_def split: if_splits)
  then show ?thesis
    by (induction node) simp_all
qed

theorem C5_decode_encode_witness:
  "init_operatorFromType \<subseteq>\<^sub>m init_operatorFromType
   \<and> unmarshalOperatorBool init_operatorFromType
       (Some (JObject [(''type'', JString ''EQBOOL''),
          (''data'', JObject
             [(''left'', JObject [(''type'', JString ''TRUE''), (''data'', JString [])]),
              (''right'', JObject [(''type'', JString ''FALSE''), (''data'', JString [])])])]))
     = Inr (EqBool TrueOp FalseOp)"
proof -
  have h: "init_operatorFromType \<subseteq>\<^sub>m init_operatorFromType"
    by simp
  from C5_decode_encode_roundtrip [OF h, of "EqBool TrueOp FalseOp"] h show ?thesis
    by simp
qed

text \<open>
  C10. Decoding a boolean operand slot whose envelope carries a discriminator that the
  registry holds, but for an operator that is not a boolean operator, fails with the error
  that names that discriminator: being registered is not enough.
\<close>

theorem C10_registered_not_boolean_fails:
  assumes "unmarshal_envelope j = Inr env"
    and "operatorFromType (Type env) = Some opv"
    and "\<not> is_OperatorBool opv"
  shows "unmarshalOperatorBool operatorFromType (Some j) = Inl (ErrNotOperatorBool (Type env))"
  using assms by simp

text \<open>
  The last \<open>type\<close> member is the one that counts, whatever the case of its name: the
  envelope below is read with the discriminator \<open>FLOAT\<close>.
\<close>

theorem C10_registered_not_boolean_witness:
  "unmarshal_envelope
     (JObject [(''type'', JString ''TRUE''), (''TYPE'', JString ''FLOAT''), (''data'', JNumber 1)])
     = Inr \<lparr>Type = ''FLOAT'', Data = Some (JNumber 1)\<rparr>
   \<and> float_operatorFromType ''FLOAT'' = Some NewOther
   \<and> \<not> is_OperatorBool NewOther
   \<and> unmarshalOperatorBool float_operatorFromType
        (Some (JObject [(''type'', JString ''TRUE''), (''TYPE'', JString ''FLOAT''),
                        (''data'', JNumber 1)]))
      = Inl (ErrNotOperatorBool ''FLOAT'')"
proof -
  have e: "unmarshal_envelope
     (JObject [(''type'', JString ''TRUE''), (''TYPE'', JString ''FLOAT''), (''data'', JNumber 1)])
     = Inr \<lparr>Type = ''FLOAT'', Data = Some (JNumber 1)\<rparr>"
    by code_simp
  have r: "float_operatorFromType (Type \<lparr>Type = ''FLOAT'', Data = Some (JNumber 1)\<rparr>) = Some NewOther"
    by (simp add: float_operatorFromType_def)
  have n: "\<not> is_OperatorBool NewOther"
    by simp
  from C10_registered_not_boolean_fails
      [of "JObject [(''type'', JString ''TRUE''), (''TYPE'', JString ''FLOAT''), (''data'', JNumber 1)]"
        "\<lparr>Type = ''FLOAT'', Data = Some (JNumber 1)\<rparr>" float_operatorFromType NewOther]
    e r n
  show ?thesis
    by simp
qed

section \<open>Properties of Equal\<close>

lemma adaptLeftAndRight_both:
  "adaptLeftAndRight left right adapter =
     (case both_coerce adapter left right of
        Some p \<Rightarrow> Inr p
      | None \<Rightarrow> Inl (filterNilErrors [error_of (adapter left), error_of (adapter right)]))"
  by (simp add: adaptLeftAndRight_def both_coerce_def split: sum.splits)

lemma Equal_Evaluate_ladder:
  "Equal_Evaluate h \<lparr>Args = [left, right], NamedArgs = named\<rparr> =
     (case both_coerce (adaptArgumentToString h) left right of
        Some (l, r) \<Rightarrow> (VBool (l = r), [])
      | None \<Rightarrow>
     (case both_coerce (adaptArgumentToBool h) left right of
        Some (l, r) \<Rightarrow> (VBool (l = r), [])
      | None \<Rightarrow>
     (case both_coerce (promoteArgumentToInt64 h) left right of
        Some (l, r) \<Rightarrow> (VBool (l = r), [])
      | None \<Rightarrow>
     (case both_coerce (promoteArgumentToFloat64 h) left right of
        Some (l, r) \<Rightarrow>
          (VBool (float64_less (float64_abs (float64_sub l r)) floatEqualityThreshold), [])
      | None \<Rightarrow>
     (case both_coerce (adaptArgumentToTime h) left right of
        Some (l, r) \<Rightarrow> (VBool (l = r), [])
      | None \<Rightarrow>
          (VNil, [Wrap ErrArgumentInvalidType
            ''all arguments to Equal Evaluate must be string, boolean, time, int or float'']))))))"
  by (simp add: Equal_Evaluate_def adaptLeftAndRight_both MakeEvaluateResult_def
      MakeEvaluateError_def split: option.splits)

text \<open>
  The threshold is the \<open>float64\<close> nearest to \<open>1e-8\<close>: it is \<open>6044629098073146 / 2 ^ 79\<close>,
  less than half a unit of its last place (\<open>1 / 2 ^ 79\<close>) away from \<open>1e-8\<close>.
\<close>

lemma floatEqualityThreshold_nearest:
  "float64_value floatEqualityThreshold = 6044629098073146 / 2 ^ 79
   \<and> \<bar>float64_value floatEqualityThreshold - 1 / 10 ^ 8\<bar> < 1 / 2 ^ 80"
  by code_simp

text \<open>The \<open>float64\<close> \<open>3.0\<close> is \<open>0x4008000000000000\<close>.\<close>

lemma Equal_3_3_0:
  "float64_value 0x4008000000000000 = 3
   \<and> both_coerce (adaptArgumentToString spec_helpers) (VInt 3) (VFloat 0x4008000000000000) = None
   \<and> both_coerce (adaptArgumentToBool spec_helpers) (VInt 3) (VFloat 0x4008000000000000) = None
   \<and> both_coerce (promoteArgumentToInt64 spec_helpers) (VInt 3) (VFloat 0x4008000000000000)
       = Some (3, 3)
   \<and> Equal_Evaluate spec_helpers
        \<lparr>Args = [VInt 3, VFloat 0x4008000000000000], NamedArgs = Map.empty\<rparr>
       = (VBool True, [])"
  by code_simp

text \<open>
  C1. For every pair of operands, \<open>Equal.Evaluate\<close> goes down the ladder string, boolean,
  integer, float, time, and returns the equality of the first representation into which
  both operands coerce; when there is none it returns no value and one error that wraps
  \<open>ErrArgumentInvalidType\<close>. This holds whatever the adapters compute. Two floats are equal
  when the absolute value of their \<open>float64\<close> difference is less than the threshold, the
  \<open>float64\<close> nearest to \<open>1e-8\<close>. With the adapters of the specification, \<open>Equal(3, 3.0)\<close> is
  decided by the integer step, before the float step: neither the string nor the boolean
  representation applies, both operands promote to the integer \<open>3\<close>, and the result is
  true.
\<close>

theorem C1_Equal_Evaluate_priority_ladder:
  "Equal_Evaluate h \<lparr>Args = [left, right], NamedArgs = named\<rparr> =
     (case both_coerce (adaptArgumentToString h) left right of
        Some (l, r) \<Rightarrow> (VBool (l = r), [])
      | None \<Rightarrow>
     (case both_coerce (adaptArgumentToBool h) left right of
        Some (l, r) \<Rightarrow> (VBool (l = r), [])
      | None \<Rightarrow>
     (case both_coerce (promoteArgumentToInt64 h) left right of
        Some (l, r) \<Rightarrow> (VBool (l = r), [])
      | None \<Rightarrow>
     (case both_coerce (promoteArgumentToFloat64 h) left right of
        Some (l, r) \<Rightarrow>
          (VBool (float64_less (float64_abs (float64_sub l r)) floatEqualityThreshold), [])
      | None \<Rightarrow>
     (case both_coerce (adaptArgumentToTime h) left right of
        Some (l, r) \<Rightarrow> (VBool (l = r), [])
      | None \<Rightarrow>
          (VNil, [Wrap ErrArgumentInvalidType
            ''all arguments to Equal Evaluate must be string, boolean, time, int or float'']))))))
   \<and> float64_value floatEqualityThreshold = 6044629098073146 / 2 ^ 79
   \<and> \<bar>float64_value floatEqualityThreshold - 1 / 10 ^ 8\<bar> < 1 / 2 ^ 80
   \<and> float64_value 0x4008000000000000 = 3
   \<and> both_coerce (adaptArgumentToString spec_helpers) (VInt 3) (VFloat 0x4008000000000000) = None
   \<and> both_coerce (adaptArgumentToBool spec_helpers) (VInt 3) (VFloat 0x4008000000000000) = None
   \<and> both_coerce (promoteArgumentToInt64 spec_helpers) (VInt 3) (VFloat 0x4008000000000000)
       = Some (3, 3)
   \<and> Equal_Evaluate spec_helpers
        \<lparr>Args = [VInt 3, VFloat 0x4008000000000000], NamedArgs = Map.empty\<rparr>
       = (VBool True, [])"
  using Equal_Evaluate_ladder [of h left right named] floatEqualityThreshold_nearest Equal_3_3_0
  by blast

text \<open>
  Examples, from the ladder: \<open>Equal("a", true)\<close> has no shared representation;
  \<open>Equal(1.0, 1.000000005)\<close> is within the tolerance and \<open>Equal(1.0, 1.0001)\<close> is not;
  \<open>9.999999999999999e-09\<close> and \<open>-9.926167350636332e-25\<close> are less than \<open>1e-8\<close> apart, but
  their \<open>float64\<close> difference rounds to the threshold, so that they are not equal; and
  the positive infinity is not equal to itself, the difference being a NaN.
\<close>

theorem C1_Equal_Evaluate_witness:
  "Equal_Evaluate spec_helpers \<lparr>Args = [VString ''a'', VBool True], NamedArgs = Map.empty\<rparr>
     = (VNil, [Wrap ErrArgumentInvalidType
          ''all arguments to Equal Evaluate must be string, boolean, time, int or float'']) \<and>
   Equal_Evaluate spec_helpers \<lparr>Args = [VFloat 0x3FF0000000000000, VFloat 0x3FF00000015798EE], NamedArgs = Map.empty\<rparr>
     = (VBool True, []) \<and>
   Equal_Evaluate spec_helpers \<lparr>Args = [VFloat 0x3FF0000000000000, VFloat 0x3FF00068DB8BAC71], NamedArgs = Map.empty\<rparr>
     = (VBool False, []) \<and>
   Equal_Evaluate spec_helpers \<lparr>Args = [VFloat 0x3E45798EE2308C39, VFloat 0xBAF3333333333333], NamedArgs = Map.empty\<rparr>
     = (VBool False, []) \<and>
   Equal_Evaluate spec_helpers \<lparr>Args = [VFloat 0x7FF0000000000000, VFloat 0x7FF0000000000000], NamedArgs = Map.empty\<rparr>
     = (VBool False, [])"
proof -
  have a: "Equal_Evaluate spec_helpers \<lparr>Args = [VString ''a'', VBool True], NamedArgs = Map.empty\<rparr>
     = (VNil, [Wrap ErrArgumentInvalidType
          ''all arguments to Equal Evaluate must be string, boolean, time, int or float''])"
  proof -
    have "Equal_Evaluate spec_helpers \<lparr>Args = [VString ''a'', VBool True], NamedArgs = Map.empty\<rparr> =
     (case both_coerce (adaptArgumentToString spec_helpers) (VString ''a'') (VBool True) of
        Some (l, r) \<Rightarrow> (VBool (l = r), [])
      | None \<Rightarrow>
     (case both_coerce (adaptArgumentToBool spec_helpers) (VString ''a'') (VBool True) of
        Some (l, r) \<Rightarrow> (VBool (l = r), [])
      | None \<Rightarrow>
     (case both_coerce (promoteArgumentToInt64 spec_helpers) (VString ''a'') (VBool True) of
        Some (l, r) \<Rightarrow> (VBool (l = r), [])
      | None \<Rightarrow>
     (case both_coerce (promoteArgumentToFloat64 spec_helpers) (VString ''a'') (VBool True) of
        Some (l, r) \<Rightarrow>
          (VBool (float64_less (float64_abs (float64_sub l r)) floatEqualityThreshold), [])
      | None \<Rightarrow>
     (case both_coerce (adaptArgumentToTime spec_helpers) (VString ''a'') (VBool True) of
        Some (l, r) \<Rightarrow> (VBool (l = r), [])
      | None \<Rightarrow>
          (VNil, [Wrap ErrArgumentInvalidType
            ''all arguments to Equal Evaluate must be string, boolean, time, int or float'']))))))"
      by (rule conjunct1 [OF C1_Equal_Evaluate_priority_ladder])
    also have "\<dots> = (VNil, [Wrap ErrArgumentInvalidType
          ''all arguments to Equal Evaluate must be string, boolean, time, int or float''])"
      by code_simp
    finally show ?thesis .
  qed
  have b: "Equal_Evaluate spec_helpers \<lparr>Args = [VFloat 0x3FF0000000000000, VFloat 0x3FF00000015798EE], NamedArgs = Map.empty\<rparr>
     = (VBool True, [])"
  proof -
    have "Equal_Evaluate spec_helpers \<lparr>Args = [VFloat 0x3FF0000000000000, VFloat 0x3FF00000015798EE], NamedArgs = Map.empty\<rparr> =
     (case both_coerce (adaptArgumentToString spec_helpers) (VFloat 0x3FF0000000000000) (VFloat 0x3FF00000015798EE) of
        Some (l, r) \<Rightarrow> (VBool (l = r), [])
      | None \<Rightarrow>
     (case both_coerce (adaptArgumentToBool spec_helpers) (VFloat 0x3FF0000000000000) (VFloat 0x3FF00000015798EE) of
        Some (l, r) \<Rightarrow> (VBool (l = r), [])
      | None \<Rightarrow>
     (case both_coerce (promoteArgumentToInt64 spec_helpers) (VFloat 0x3FF0000000000000) (VFloat 0x3FF00000015798EE) of
        Some (l, r) \<Rightarrow> (VBool (l = r), [])
      | None \<Rightarrow>
     (case both_coerce (promoteArgumentToFloat64 spec_helpers) (VFloat 0x3FF0000000000000) (VFloat 0x3FF00000015798EE) of
        Some (l, r) \<Rightarrow>
          (VBool (float64_less (float64_abs (float64_sub l r)) floatEqualityThreshold), [])
      | None \<Rightarrow>
     (case both_coerce (adaptArgumentToTime spec_helpers) (VFloat 0x3FF0000000000000) (VFloat 0x3FF00000015798EE) of
        Some (l, r) \<Rightarrow> (VBool (l = r), [])
      | None \<Rightarrow>
          (VNil, [Wrap ErrArgumentInvalidType
            ''all arguments to Equal Evaluate must be string, boolean, time, int or float'']))))))"
      by (rule conjunct1 [OF C1_Equal_Evaluate_priority_ladder])
    also have "\<dots> = (VBool True, [])"
      by code_simp
    finally show ?thesis .
  qed
  have c: "Equal_Evaluate spec_helpers \<lparr>Args = [VFloat 0x3FF0000000000000, VFloat 0x3FF00068DB8BAC71], NamedArgs = Map.empty\<rparr>
     = (VBool False, [])"
  proof -
    have "Equal_Evaluate spec_helpers \<lparr>Args = [VFloat 0x3FF0000000000000, VFloat 0x3FF00068DB8BAC71], NamedArgs = Map.empty\<rparr> =
     (case both_coerce (adaptArgumentToString spec_helpers) (VFloat 0x3FF0000000000000) (VFloat 0x3FF00068DB8BAC71) of
        Some (l, r) \<Rightarrow> (VBool (l = r), [])
      | None \<Rightarrow>
     (case both_coerce (adaptArgumentToBool spec_helpers) (VFloat 0x3FF0000000000000) (VFloat 0x3FF00068DB8BAC71) of
        Some (l, r) \<Rightarrow> (VBool (l = r), [])
      | None \<Rightarrow>
     (case both_coerce (promoteArgumentToInt64 spec_helpers) (VFloat 0x3FF0000000000000) (VFloat 0x3FF00068DB8BAC71) of
        Some (l, r) \<Rightarrow> (VBool (l = r), [])
      | None \<Rightarrow>
     (case both_coerce (promoteArgumentToFloat64 spec_helpers) (VFloat 0x3FF0000000000000) (VFloat 0x3FF00068DB8BAC71) of
        Some (l, r) \<Rightarrow>
          (VBool (float64_less (float64_abs (float64_sub l r)) floatEqualityThreshold), [])
      | None \<Rightarrow>
     (case both_coerce (adaptArgumentToTime spec_helpers) (VFloat 0x3FF0000000000000) (VFloat 0x3FF00068DB8BAC71) of
        Some (l, r) \<Rightarrow> (VBool (l = r), [])
      | None \<Rightarrow>
          (VNil, [Wrap ErrArgumentInvalidType
            ''all arguments to Equal Evaluate must be string, boolean, time, int or float'']))))))"
      by (rule conjunct1 [OF C1_Equal_Evaluate_priority_ladder])
    also have "\<dots> = (VBool False, [])"
      by code_simp
    finally show ?thesis .
  qed
  have d: "Equal_Evaluate spec_helpers \<lparr>Args = [VFloat 0x3E45798EE2308C39, VFloat 0xBAF3333333333333], NamedArgs = Map.empty\<rparr>
     = (VBool False, [])"
  proof -
    have "Equal_Evaluate spec_helpers \<lparr>Args = [VFloat 0x3E45798EE2308C39, VFloat 0xBAF3333333333333], NamedArgs = Map.empty\<rparr> =
     (case both_coerce (adaptArgumentToString spec_helpers) (VFloat 0x3E45798EE2308C39) (VFloat 0xBAF3333333333333) of
        Some (l, r) \<Rightarrow> (VBool (l = r), [])
      | None \<Rightarrow>
     (case both_coerce (adaptArgumentToBool spec_helpers) (VFloat 0x3E45798EE2308C39) (VFloat 0xBAF3333333333333) of
        Some (l, r) \<Rightarrow> (VBool (l = r), [])
      | None \<Rightarrow>
     (case both_coerce (promoteArgumentToInt64 spec_helpers) (VFloat 0x3E45798EE2308C39) (VFloat 0xBAF3333333333333) of
        Some (l, r) \<Rightarrow> (VBool (l = r), [])
      | None \<Rightarrow>
     (case both_coerce (promoteArgumentToFloat64 spec_helpers) (VFloat 0x3E45798EE2308C39) (VFloat 0xBAF3333333333333) of
        Some (l, r) \<Rightarrow>
          (VBool (float64_less (float64_abs (float64_sub l r)) floatEqualityThreshold), [])
      | None \<Rightarrow>
     (case both_coerce (adaptArgumentToTime spec_helpers) (VFloat 0x3E45798EE2308C39) (VFloat 0xBAF3333333333333) of
        Some (l, r) \<Rightarrow> (VBool (l = r), [])
      | None \<Rightarrow>
          (VNil, [Wrap ErrArgumentInvalidType
            ''all arguments to Equal Evaluate must be string, boolean, time, int or float'']))))))"
      by (rule conjunct1 [OF C1_Equal_Evaluate_priority_ladder])
    also have "\<dots> = (VBool False, [])"
      by code_simp
    finally show ?thesis .
  qed
  have e: "Equal_Evaluate spec_helpers \<lparr>Args = [VFloat 0x7FF0000000000000, VFloat 0x7FF0000000000000], NamedArgs = Map.empty\<rparr>
     = (VBool False, [])"
  proof -
    have "Equal_Evaluate spec_helpers \<lparr>Args = [VFloat 0x7FF0000000000000, VFloat 0x7FF0000000000000], NamedArgs = Map.empty\<rparr> =
     (case both_coerce (adaptArgumentToString spec_helpers) (VFloat 0x7FF0000000000000) (VFloat 0x7FF0000000000000) of
        Some (l, r) \<Rightarrow> (VBool (l = r), [])
      | None \<Rightarrow>
     (case both_coerce (adaptArgumentToBool spec_helpers) (VFloat 0x7FF0000000000000) (VFloat 0x7FF0000000000000) of
        Some (l, r) \<Rightarrow> (VBool (l = r), [])
      | None \<Rightarrow>
     (case both_coerce (promoteArgumentToInt64 spec_helpers) (VFloat 0x7FF0000000000000) (VFloat 0x7FF0000000000000) of
        Some (l, r) \<Rightarrow> (VBool (l = r), [])
      | None \<Rightarrow>
     (case both_coerce (promoteArgumentToFloat64 spec_helpers) (VFloat 0x7FF0000000000000) (VFloat 0x7FF0000000000000) of
        Some (l, r) \<Rightarrow>
          (VBool (float64_less (float64_abs (float64_sub l r)) floatEqualityThreshold), [])
      | None \<Rightarrow>
     (case both_coerce (adaptArgumentToTime spec_helpers) (VFloat 0x7FF0000000000000) (VFloat 0x7FF0000000000000) of
        Some (l, r) \<Rightarrow> (VBool (l = r), [])
      | None \<Rightarrow>
          (VNil, [Wrap ErrArgumentInvalidType
            ''all arguments to Equal Evaluate must be string, boolean, time, int or float'']))))))"
      by (rule conjunct1 [OF C1_Equal_Evaluate_priority_ladder])
    also have "\<dots> = (VBool False, [])"
      by code_simp
    finally show ?thesis .
  qed
  from a b c d e show ?thesis
    by blast
qed

section \<open>Properties of Filter\<close>

lemma valid_GREATER:
  "map_of validTypeForFilterOperators FILTER_GREATER =
     Some [models_Int, models_Float, models_String, models_Timestamp]"
  by (simp add: validTypeForFilterOperators_def FILTER_EQUAL_def FILTER_NOT_EQUAL_def
      FILTER_GREATER_def)

lemma Filter_no_value:
  assumes "AdaptNamedArgument (NamedArgs arguments) ''tableName'' (adaptArgumentToString h) = Inr tableName"
    and "AdaptNamedArgument (NamedArgs arguments) ''fieldName'' (adaptArgumentToString h) = Inr fieldName"
    and "AdaptNamedArgument (NamedArgs arguments) ''operator'' (adaptArgumentToString h) = Inr operator"
    and "getFieldType h (DataModel f) tableName fieldName = Inr fieldType"
    and "map_of validTypeForFilterOperators operator = Some validTypes"
    and "fieldType \<in> set validTypes"
    and "NamedArgs arguments ''value'' = None"
  shows "FilterEvaluator_Evaluate h f arguments = (VFilter (Filter tableName fieldName operator VNil), [])"
  using assms by (simp add: FilterEvaluator_Evaluate_def Let_def)

lemma Filter_invalid_type:
  assumes "AdaptNamedArgument (NamedArgs arguments) ''tableName'' (adaptArgumentToString h) = Inr tableName"
    and "AdaptNamedArgument (NamedArgs arguments) ''fieldName'' (adaptArgumentToString h) = Inr fieldName"
    and "AdaptNamedArgument (NamedArgs arguments) ''operator'' (adaptArgumentToString h) = Inr operator"
    and "getFieldType h (DataModel f) tableName fieldName = Inr fieldType"
    and "map_of validTypeForFilterOperators operator = Some validTypes"
    and "fieldType \<notin> set validTypes"
  shows "FilterEvaluator_Evaluate h f arguments =
     (VNil, [Join [Wrap ErrArgumentInvalidType
                 (''field type '' @ models_DataType_String fieldType @ '' is not valid for operator ''
                  @ operator @ '' in Evaluate filter''),
               NamedArgumentError ''fieldName'']])"
  using assms by (simp add: FilterEvaluator_Evaluate_def Let_def MakeEvaluateError_def)

lemma adapt_orders_status_greater:
  "AdaptNamedArgument [''tableName'' \<mapsto> VString ''orders'', ''fieldName'' \<mapsto> VString ''status'',
      ''operator'' \<mapsto> VString FILTER_GREATER] ''tableName'' (adaptArgumentToString spec_helpers)
     = Inr ''orders''"
  "AdaptNamedArgument [''tableName'' \<mapsto> VString ''orders'', ''fieldName'' \<mapsto> VString ''status'',
      ''operator'' \<mapsto> VString FILTER_GREATER] ''fieldName'' (adaptArgumentToString spec_helpers)
     = Inr ''status''"
  "AdaptNamedArgument [''tableName'' \<mapsto> VString ''orders'', ''fieldName'' \<mapsto> VString ''status'',
      ''operator'' \<mapsto> VString FILTER_GREATER] ''operator'' (adaptArgumentToString spec_helpers)
     = Inr FILTER_GREATER"
  by (simp_all add: AdaptNamedArgument_def spec_helpers_def)

text \<open>
  C4, as the specification states it, fails: \<open>orders.status\<close> is declared a string, the
  operator is \<open>greater\<close>, and the evaluation succeeds with a descriptor and no error, since
  \<open>validTypeForFilterOperators\<close> lists \<open>String\<close> for \<open>FILTER_GREATER\<close>.
\<close>

theorem C4_greater_on_string_field_counterexample:
  "getFieldType spec_helpers orders_fields ''orders'' ''status'' = Inr models_String
   \<and> FilterEvaluator_Evaluate spec_helpers \<lparr>DataModel = orders_fields\<rparr>
        \<lparr>Args = [],
         NamedArgs = [''tableName'' \<mapsto> VString ''orders'', ''fieldName'' \<mapsto> VString ''status'',
                      ''operator'' \<mapsto> VString FILTER_GREATER]\<rparr>
      = (VFilter (Filter ''orders'' ''status'' FILTER_GREATER VNil), [])"
  by (simp add: FilterEvaluator_Evaluate_def Let_def AdaptNamedArgument_def spec_helpers_def
      spec_getFieldType_def orders_fields_def valid_GREATER)

text \<open>
  C4, amended. For every Filter invocation with \<open>tableName = "orders"\<close>,
  \<open>fieldName = "status"\<close> and \<open>operator = greater\<close>: when the data model declares
  \<open>orders.status\<close> a string, the ordering operator is permitted, and with no \<open>value\<close>
  argument the evaluation succeeds with the descriptor of that table, field and operator
  and a nil value; when the data model declares \<open>orders.status\<close> a boolean, the evaluation
  fails with an \<open>ErrArgumentInvalidType\<close> error attributed to \<open>fieldName\<close>, because ordering
  operators are not permitted on that declared type.
\<close>

theorem C4_Filter_greater_by_declared_type:
  assumes "AdaptNamedArgument (NamedArgs arguments) ''tableName'' (adaptArgumentToString h) = Inr ''orders''"
    and "AdaptNamedArgument (NamedArgs arguments) ''fieldName'' (adaptArgumentToString h) = Inr ''status''"
    and "AdaptNamedArgument (NamedArgs arguments) ''operator'' (adaptArgumentToString h) = Inr FILTER_GREATER"
  shows "(getFieldType h (DataModel f) ''orders'' ''status'' = Inr models_String
          \<and> NamedArgs arguments ''value'' = None
          \<longrightarrow> FilterEvaluator_Evaluate h f arguments
                = (VFilter (Filter ''orders'' ''status'' FILTER_GREATER VNil), []))
       \<and> (getFieldType h (DataModel f) ''orders'' ''status'' = Inr models_Bool
          \<longrightarrow> FilterEvaluator_Evaluate h f arguments
                = (VNil, [Join [Wrap ErrArgumentInvalidType
                     (''field type Bool is not valid for operator '' @ FILTER_GREATER
                      @ '' in Evaluate filter''),
                   NamedArgumentError ''fieldName'']])
              \<and> errors_Is (Join [Wrap ErrArgumentInvalidType
                     (''field type Bool is not valid for operator '' @ FILTER_GREATER
                      @ '' in Evaluate filter''),
                   NamedArgumentError ''fieldName'']) ErrArgumentInvalidType)"
proof (intro conjI impI)
  assume "getFieldType h (DataModel f) ''orders'' ''status'' = Inr models_String
      \<and> NamedArgs arguments ''value'' = None"
  then show "FilterEvaluator_Evaluate h f arguments
      = (VFilter (Filter ''orders'' ''status'' FILTER_GREATER VNil), [])"
    using Filter_no_value [OF assms _ valid_GREATER] by simp
next
  assume "getFieldType h (DataModel f) ''orders'' ''status'' = Inr models_Bool"
  then show "FilterEvaluator_Evaluate h f arguments
      = (VNil, [Join [Wrap ErrArgumentInvalidType
           (''field type Bool is not valid for operator '' @ FILTER_GREATER
            @ '' in Evaluate filter''),
         NamedArgumentError ''fieldName'']])"
    using Filter_invalid_type [OF assms _ valid_GREATER] by simp
next
  show "errors_Is (Join [Wrap ErrArgumentInvalidType
       (''field type Bool is not valid for operator '' @ FILTER_GREATER @ '' in Evaluate filter''),
     NamedArgumentError ''fieldName'']) ErrArgumentInvalidType"
    by simp
qed

theorem C4_Filter_greater_by_declared_type_witness:
  "FilterEvaluator_Evaluate spec_helpers \<lparr>DataModel = orders_fields\<rparr>
        \<lparr>Args = [],
         NamedArgs = [''tableName'' \<mapsto> VString ''orders'', ''fieldName'' \<mapsto> VString ''status'',
                      ''operator'' \<mapsto> VString FILTER_GREATER]\<rparr>
      = (VFilter (Filter ''orders'' ''status'' FILTER_GREATER VNil), [])
   \<and> FilterEvaluator_Evaluate spec_helpers \<lparr>DataModel = orders_fields_bool\<rparr>
        \<lparr>Args = [],
         NamedArgs = [''tableName'' \<mapsto> VString ''orders'', ''fieldName'' \<mapsto> VString ''status'',
                      ''operator'' \<mapsto> VString FILTER_GREATER]\<rparr>
      = (VNil, [Join [Wrap ErrArgumentInvalidType
           (''field type Bool is not valid for operator '' @ FILTER_GREATER
            @ '' in Evaluate filter''),
         NamedArgumentError ''fieldName'']])"
proof -
  let ?args = "\<lparr>Args = [],
         NamedArgs = [''tableName'' \<mapsto> VString ''orders'', ''fieldName'' \<mapsto> VString ''status'',
                      ''operator'' \<mapsto> VString FILTER_GREATER]\<rparr>"
  have a: "AdaptNamedArgument (NamedArgs ?args) ''tableName'' (adaptArgumentToString spec_helpers)
      = Inr ''orders''"
    "AdaptNamedArgument (NamedArgs ?args) ''fieldName'' (adaptArgumentToString spec_helpers)
      = Inr ''status''"
    "AdaptNamedArgument (NamedArgs ?args) ''operator'' (adaptArgumentToString spec_helpers)
      = Inr FILTER_GREATER"
    by (simp_all add: adapt_orders_status_greater)
  have s: "getFieldType spec_helpers (DataModel \<lparr>DataModel = orders_fields\<rparr>) ''orders'' ''status''
      = Inr models_String"
    by (simp add: spec_helpers_def spec_getFieldType_def orders_fields_def)
  have b: "getFieldType spec_helpers (DataModel \<lparr>DataModel = orders_fields_bool\<rparr>) ''orders'' ''status''
      = Inr models_Bool"
    by (simp add: spec_helpers_def spec_getFieldType_def orders_fields_bool_def)
  have v: "NamedArgs ?args ''value'' = None"
    by simp
  from C4_Filter_greater_by_declared_type [OF a, of "\<lparr>DataModel = orders_fields\<rparr>"] s v
    C4_Filter_greater_by_declared_type [OF a, of "\<lparr>DataModel = orders_fields_bool\<rparr>"] b
  show ?thesis by simp
qed

text \<open>
  C7. For every Filter invocation whose \<open>tableName\<close>, \<open>fieldName\<close> and \<open>operator\<close> arguments
  adapt to strings, whose field resolves in the data model and whose operator is allowed
  for the declared type of the field: when the named argument \<open>value\<close> is absent,
  \<open>FilterEvaluator.Evaluate\<close> returns no error and the descriptor with that table name,
  field name and operator and a nil \<open>Value\<close>.
\<close>

theorem C7_Filter_without_value:
  assumes "AdaptNamedArgument (NamedArgs arguments) ''tableName'' (adaptArgumentToString h) = Inr tableName"
    and "AdaptNamedArgument (NamedArgs arguments) ''fieldName'' (adaptArgumentToString h) = Inr fieldName"
    and "AdaptNamedArgument (NamedArgs arguments) ''operator'' (adaptArgumentToString h) = Inr operator"
    and "getFieldType h (DataModel f) tableName fieldName = Inr fieldType"
    and "map_of validTypeForFilterOperators operator = Some validTypes"
    and "fieldType \<in> set validTypes"
    and "NamedArgs arguments ''value'' = None"
  shows "FilterEvaluator_Evaluate h f arguments
           = (VFilter (Filter tableName fieldName operator VNil), [])"
  using assms by (rule Filter_no_value)

theorem C7_Filter_without_value_witness:
  "FilterEvaluator_Evaluate spec_helpers \<lparr>DataModel = orders_fields\<rparr>
        \<lparr>Args = [],
         NamedArgs = [''tableName'' \<mapsto> VString ''orders'', ''fieldName'' \<mapsto> VString ''amount'',
                      ''operator'' \<mapsto> VString FILTER_GREATER]\<rparr>
      = (VFilter (Filter ''orders'' ''amount'' FILTER_GREATER VNil), [])"
proof -
  let ?args = "\<lparr>Args = [],
         NamedArgs = [''tableName'' \<mapsto> VString ''orders'', ''fieldName'' \<mapsto> VString ''amount'',
                      ''operator'' \<mapsto> VString FILTER_GREATER]\<rparr>"
  have a: "AdaptNamedArgument (NamedArgs ?args) ''tableName'' (adaptArgumentToString spec_helpers)
      = Inr ''orders''"
    and b: "AdaptNamedArgument (NamedArgs ?args) ''fieldName'' (adaptArgumentToString spec_helpers)
      = Inr ''amount''"
    and c: "AdaptNamedArgument (NamedArgs ?args) ''operator'' (adaptArgumentToString spec_helpers)
      = Inr FILTER_GREATER"
    by (simp_all add: AdaptNamedArgument_def spec_helpers_def)
  have t: "getFieldType spec_helpers (DataModel \<lparr>DataModel = orders_fields\<rparr>) ''orders'' ''amount''
      = Inr models_Float"
    by (simp add: spec_helpers_def spec_getFieldType_def orders_fields_def)
  have m: "models_Float \<in> set [models_Int, models_Float, models_String, models_Timestamp]"
    by simp
  have v: "NamedArgs ?args ''value'' = None"
    by simp
  show ?thesis
    by (rule C7_Filter_without_value [OF a b c t valid_GREATER m v])
qed

text \<open>
  C9, as stated, fails: \<open>tableName\<close> and \<open>fieldName\<close> are strings that do not resolve to a
  declared field, the \<open>operator\<close> argument is the boolean \<open>true\<close> (not a member of the
  enumeration), and the error returned is the one of the \<open>operator\<close> argument, not the
  field-not-found error: the three arguments are adapted before the field is resolved.
\<close>

theorem C9_operator_not_a_string_counterexample:
  "getFieldType spec_helpers orders_fields ''orders'' ''missing''
     = Inl (Wrap ErrRuntimeExpression ''unknown field missing'')
   \<and> FilterEvaluator_Evaluate spec_helpers \<lparr>DataModel = orders_fields\<rparr>
        \<lparr>Args = [],
         NamedArgs = [''tableName'' \<mapsto> VString ''orders'', ''fieldName'' \<mapsto> VString ''missing'',
                      ''operator'' \<mapsto> VBool True]\<rparr>
      = (VNil, [Join [Wrap ErrArgumentInvalidType ''argument must be a string'',
                      NamedArgumentError ''operator'']])"
  by (simp add: FilterEvaluator_Evaluate_def Let_def AdaptNamedArgument_def spec_helpers_def
      spec_getFieldType_def orders_fields_def)

text \<open>
  C9, amended. For every Filter invocation whose \<open>tableName\<close>, \<open>fieldName\<close> and \<open>operator\<close>
  named arguments are strings, and whose table and field do not resolve to a declared
  field in the data model, \<open>FilterEvaluator.Evaluate\<close> returns the field-not-found error
  attributed to the named argument \<open>fieldName\<close>, whether or not the operator is a member of
  the enumeration: the field is resolved before the operator is looked up, so the operator
  error is not reported.
\<close>

theorem C9_field_not_found_before_operator:
  assumes "AdaptNamedArgument (NamedArgs arguments) ''tableName'' (adaptArgumentToString h) = Inr tableName"
    and "AdaptNamedArgument (NamedArgs arguments) ''fieldName'' (adaptArgumentToString h) = Inr fieldName"
    and "AdaptNamedArgument (NamedArgs arguments) ''operator'' (adaptArgumentToString h) = Inr operator"
    and "getFieldType h (DataModel f) tableName fieldName = Inl err"
  shows "FilterEvaluator_Evaluate h f arguments =
     (VNil, [Join [Wrap err (''field type for '' @ tableName @ ''.'' @ fieldName
                       @ '' not found in data model in Evaluate filter''),
             NamedArgumentError ''fieldName'']])"
  using assms by (simp add: FilterEvaluator_Evaluate_def Let_def MakeEvaluateError_def)

theorem C9_field_not_found_witness:
  "map_of validTypeForFilterOperators ''bogus'' = None
   \<and> FilterEvaluator_Evaluate spec_helpers \<lparr>DataModel = orders_fields\<rparr>
        \<lparr>Args = [],
         NamedArgs = [''tableName'' \<mapsto> VString ''orders'', ''fieldName'' \<mapsto> VString ''missing'',
                      ''operator'' \<mapsto> VString ''bogus'']\<rparr>
      = (VNil, [Join [Wrap (Wrap ErrRuntimeExpression ''unknown field missing'')
                        ''field type for orders.missing not found in data model in Evaluate filter'',
                      NamedArgumentError ''fieldName'']])"
proof -
  let ?args = "\<lparr>Args = [],
         NamedArgs = [''tableName'' \<mapsto> VString ''orders'', ''fieldName'' \<mapsto> VString ''missing'',
                      ''operator'' \<mapsto> VString ''bogus'']\<rparr>"
  have a: "AdaptNamedArgument (NamedArgs ?args) ''tableName'' (adaptArgumentToString spec_helpers)
      = Inr ''orders''"
    and b: "AdaptNamedArgument (NamedArgs ?args) ''fieldName'' (adaptArgumentToString spec_helpers)
      = Inr ''missing''"
    and c: "AdaptNamedArgument (NamedArgs ?args) ''operator'' (adaptArgumentToString spec_helpers)
      = Inr ''bogus''"
    by (simp_all add: AdaptNamedArgument_def spec_helpers_def)
  have t: "getFieldType spec_helpers (DataModel \<lparr>DataModel = orders_fields\<rparr>) ''orders'' ''missing''
      = Inl (Wrap ErrRuntimeExpression ''unknown field missing'')"
    by (simp add: spec_helpers_def spec_getFieldType_def orders_fields_def)
  have n: "map_of validTypeForFilterOperators ''bogus'' = None"
    by (simp add: validTypeForFilterOperators_def FILTER_EQUAL_def FILTER_NOT_EQUAL_def
        FILTER_GREATER_def FILTER_GREATER_OR_EQUAL_def FILTER_LESSER_def
        FILTER_LESSER_OR_EQUAL_def FILTER_IS_IN_LIST_def FILTER_IS_NOT_IN_LIST_def
        FILTER_IS_EMPTY_def FILTER_IS_NOT_EMPTY_def FILTER_STARTS_WITH_def
        FILTER_ENDS_WITH_def FILTER_FUZZY_MATCH_def)
  from C9_field_not_found_before_operator [OF a b c t] n show ?thesis
    by simp
qed

end
